theory Spec2Isabelle
  imports Main "HOL-Library.AList" "HOL-Library.Multiset"
begin

section \<open>devlab: the scenario lifecycle manager, the cleanup worker and the tree builder\<close>

text \<open>
  A shallow embedding of the Go packages \<^verbatim>\<open>internal/scenario\<close>, \<^verbatim>\<open>internal/storage\<close>,
  \<^verbatim>\<open>internal/cleanup\<close> and \<^verbatim>\<open>internal/docker\<close>. Go strings are byte strings and are
  modelled as \<^typ>\<open>string\<close> (a list of 8-bit characters).
\<close>

subsection \<open>The Go standard library functions the code calls\<close>

text \<open>
  \<^verbatim>\<open>strings.HasPrefix(s, prefix)\<close> is
  \<^verbatim>\<open>len(s) >= len(prefix) && s[:len(prefix)] == prefix\<close>.
\<close>

definition HasPrefix :: "string \<Rightarrow> string \<Rightarrow> bool" where
  "HasPrefix s pre = (length pre \<le> length s \<and> take (length pre) s = pre)"

text \<open>
  White space as \<^verbatim>\<open>unicode.IsSpace\<close> sees it in a UTF-8 byte string: the six ASCII
  characters tab, line feed, vertical tab, form feed, carriage return and space, and the
  UTF-8 encodings of U+0085, U+00A0, U+1680, U+2000 to U+200A, U+2028, U+2029, U+202F,
  U+205F and U+3000. The lead bytes of these encodings are never continuation bytes, so a
  byte string holds one of them at a position exactly when Go's decoder reads that rune
  there. \<open>spaceLen s\<close> is the width in bytes of the white space rune \<open>s\<close> starts with,
  and 0 when it starts with none.
\<close>

definition asciiSpace :: "char \<Rightarrow> bool" where
  "asciiSpace c =
     (c = CHR 0x09 \<or> c = CHR 0x0A \<or> c = CHR 0x0B \<or> c = CHR 0x0C \<or> c = CHR 0x0D \<or> c = CHR 0x20)"

definition unicodeSpaces2 :: "string list" where
  "unicodeSpaces2 = [[CHR 0xC2, CHR 0x85], [CHR 0xC2, CHR 0xA0]]"

definition unicodeSpaces3 :: "string list" where
  "unicodeSpaces3 =
     [[CHR 0xE1, CHR 0x9A, CHR 0x80],
      [CHR 0xE2, CHR 0x80, CHR 0x80], [CHR 0xE2, CHR 0x80, CHR 0x81],
      [CHR 0xE2, CHR 0x80, CHR 0x82], [CHR 0xE2, CHR 0x80, CHR 0x83],
      [CHR 0xE2, CHR 0x80, CHR 0x84], [CHR 0xE2, CHR 0x80, CHR 0x85],
      [CHR 0xE2, CHR 0x80, CHR 0x86], [CHR 0xE2, CHR 0x80, CHR 0x87],
      [CHR 0xE2, CHR 0x80, CHR 0x88], [CHR 0xE2, CHR 0x80, CHR 0x89],
      [CHR 0xE2, CHR 0x80, CHR 0x8A],
      [CHR 0xE2, CHR 0x80, CHR 0xA8], [CHR 0xE2, CHR 0x80, CHR 0xA9],
      [CHR 0xE2, CHR 0x80, CHR 0xAF], [CHR 0xE2, CHR 0x81, CHR 0x9F],
      [CHR 0xE3, CHR 0x80, CHR 0x80]]"

definition spaceLen :: "string \<Rightarrow> nat" where
  "spaceLen s =
     (case s of
        [] \<Rightarrow> 0
      | c # _ \<Rightarrow>
          if asciiSpace c then 1
          else if take 2 s \<in> set unicodeSpaces2 then 2
          else if take 3 s \<in> set unicodeSpaces3 then 3
          else 0)"

text \<open>The same for the rune a string ends with (\<^verbatim>\<open>utf8.DecodeLastRuneInString\<close>).\<close>

definition spaceLenEnd :: "string \<Rightarrow> nat" where
  "spaceLenEnd s =
     (if s = [] then 0
      else if asciiSpace (last s) then 1
      else if 2 \<le> length s \<and> drop (length s - 2) s \<in> set unicodeSpaces2 then 2
      else if 3 \<le> length s \<and> drop (length s - 3) s \<in> set unicodeSpaces3 then 3
      else 0)"

text \<open>
  \<^verbatim>\<open>strings.TrimSpace\<close>: all leading and trailing white space removed. Both scans run on
  a counter that bounds the number of runes removed by the length of the string.
\<close>

fun trimLeftN :: "nat \<Rightarrow> string \<Rightarrow> string" where
  "trimLeftN 0 s = s"
| "trimLeftN (Suc n) s = (if spaceLen s = 0 then s else trimLeftN n (drop (spaceLen s) s))"

fun trimRightN :: "nat \<Rightarrow> string \<Rightarrow> string" where
  "trimRightN 0 s = s"
| "trimRightN (Suc n) s =
     (if spaceLenEnd s = 0 then s else trimRightN n (take (length s - spaceLenEnd s) s))"

definition TrimSpace :: "string \<Rightarrow> string" where
  "TrimSpace s = (let l = trimLeftN (length s) s in trimRightN (length l) l)"

text \<open>
  \<^verbatim>\<open>strings.Fields\<close>: the maximal runs of bytes that hold no white space rune, in order.
  \<open>skip\<close> counts the bytes of a white space rune still to be passed over, \<open>cur\<close> is the
  field being read, reversed.
\<close>

fun fieldsFrom :: "nat \<Rightarrow> string \<Rightarrow> string \<Rightarrow> string list" where
  "fieldsFrom skip cur [] = (if cur = [] then [] else [rev cur])"
| "fieldsFrom skip cur (c # cs) =
     (if 0 < skip then fieldsFrom (skip - 1) cur cs
      else if 0 < spaceLen (c # cs) then
        (if cur = [] then fieldsFrom (spaceLen (c # cs) - 1) [] cs
         else rev cur # fieldsFrom (spaceLen (c # cs) - 1) [] cs)
      else fieldsFrom 0 (c # cur) cs)"

definition Fields :: "string \<Rightarrow> string list" where
  "Fields s = fieldsFrom 0 [] s"

text \<open>
  \<^verbatim>\<open>strings.Split(s, "\n")\<close>: the substrings between line feeds, empty ones included;
  a string without a line feed (the empty string too) gives one element.
\<close>

fun splitFrom :: "string \<Rightarrow> string \<Rightarrow> string list" where
  "splitFrom cur [] = [rev cur]"
| "splitFrom cur (c # cs) =
     (if c = CHR 0x0A then rev cur # splitFrom [] cs else splitFrom (c # cur) cs)"

definition SplitLines :: "string \<Rightarrow> string list" where
  "SplitLines s = splitFrom [] s"

text \<open>
  \<^verbatim>\<open>filepath.Clean\<close> and \<^verbatim>\<open>filepath.Dir\<close> on Unix, on the elements of the path
  between slashes: empty elements and \<^verbatim>\<open>.\<close> are dropped, \<^verbatim>\<open>..\<close> removes the element
  before it, is dropped at the root and is kept at the head of a relative path; the empty
  result is \<^verbatim>\<open>.\<close>.
\<close>

fun splitSlash :: "string \<Rightarrow> string \<Rightarrow> string list" where
  "splitSlash cur [] = [rev cur]"
| "splitSlash cur (c # cs) =
     (if c = CHR ''/'' then rev cur # splitSlash [] cs else splitSlash (c # cur) cs)"

fun cleanElems :: "bool \<Rightarrow> string list \<Rightarrow> string list \<Rightarrow> string list" where
  "cleanElems rooted out [] = out"
| "cleanElems rooted out (e # es) =
     (if e = [] \<or> e = ''.'' then cleanElems rooted out es
      else if e = ''..'' then
        (if out \<noteq> [] \<and> last out \<noteq> ''..'' then cleanElems rooted (butlast out) es
         else if \<not> rooted then cleanElems rooted (out @ [''..'']) es
         else cleanElems rooted out es)
      else cleanElems rooted (out @ [e]) es)"

fun joinSlash :: "string list \<Rightarrow> string" where
  "joinSlash [] = []"
| "joinSlash [e] = e"
| "joinSlash (e # es) = e @ ''/'' @ joinSlash es"

definition Clean :: "string \<Rightarrow> string" where
  "Clean path =
     (if path = [] then ''.''
      else
        (let rooted = (hd path = CHR ''/'');
             out = joinSlash (cleanElems rooted [] (splitSlash [] path))
         in if rooted then ''/'' @ out else if out = [] then ''.'' else out))"

text \<open>\<^verbatim>\<open>filepath.Dir\<close>: the path up to and including its last slash, cleaned.\<close>

fun dropLastElem :: "string \<Rightarrow> string" where
  "dropLastElem s = rev (dropWhile (\<lambda>c. c \<noteq> CHR ''/'') (rev s))"

definition Dir :: "string \<Rightarrow> string" where
  "Dir path = Clean (dropLastElem path)"

subsection \<open>Errors\<close>

text \<open>
  The sentinel values of the three packages (made by \<^verbatim>\<open>errors.New\<close> at package level
  and compared by identity), the errors of the MongoDB driver and of the Docker engine
  API, \<open>New\<close> for an error made on the spot by \<^verbatim>\<open>errors.New\<close> or by \<^verbatim>\<open>fmt.Errorf\<close>
  without \<^verbatim>\<open>%w\<close>, and \<open>Errorf\<close> for \<^verbatim>\<open>fmt.Errorf\<close> with \<^verbatim>\<open>%w\<close>: its format string
  and the error it wraps. \<open>Panic\<close> is a run-time panic, which no caller handles. The text that \<^verbatim>\<open>%s\<close>, \<^verbatim>\<open>%v\<close> and \<^verbatim>\<open>%d\<close> put into a message is
  not kept: no branch of the code reads it.
\<close>

datatype error =
    Scenario_ErrScenarioNotFound
  | Scenario_ErrScenarioNotRunning
  | Scenario_ErrScenarioAlreadyStopped
  | Scenario_ErrInvalidScenarioID
  | Scenario_ErrDatabaseUnavailable
  | Storage_ErrScenarioNotFound
  | Storage_ErrDatabaseNil
  | Storage_ErrInvalidScenario
  | Docker_ErrContainerNotFound
  | Docker_ErrContainerNotRunning
  | Docker_ErrPortUnavailable
  | Docker_ErrTTYDFailedToStart
  | Docker_ErrInvalidScenarioType
  | Docker_ErrDockerDaemonUnavailable
  | Mongo_ErrNoDocuments
  | Mongo_DriverError
  | Mongo_DuplicateKey
  | Engine_NotFound
  | Engine_Conflict
  | Engine_Error
  | Panic string
  | New string
  | Errorf string error

text \<open>\<^verbatim>\<open>errors.Is\<close>: the target is the error or one of those it wraps.\<close>

fun errors_Is :: "error \<Rightarrow> error \<Rightarrow> bool" where
  "errors_Is (Errorf fmt inner) target = (Errorf fmt inner = target \<or> errors_Is inner target)"
| "errors_Is err target = (err = target)"

subsection \<open>The directory tree builder (\<^verbatim>\<open>internal/scenario/scenario.go\<close>)\<close>

record FileNode =
  Path :: string
  Type :: string
  IsRoot :: bool
  Children :: "string list"
  Content :: string
  IsOpen :: bool
  IsSaved :: bool

definition getNodeType :: "string \<Rightarrow> string" where
  "getNodeType findType =
     (if findType = ''d'' then ''folder''
      else if findType = ''f'' then ''file''
      else ''file'')"

definition getParentPath :: "string \<Rightarrow> string" where
  "getParentPath path = (let dir = Dir path in if dir = ''.'' then ''/home/devlab'' else dir)"

definition cachePatterns :: "string list" where
  "cachePatterns =
     [''/home/devlab/.cache'',
      ''/home/devlab/go/pkg/mod'',
      ''/home/devlab/.config'',
      ''/home/devlab/.local'',
      ''/home/devlab/.npm'',
      ''/home/devlab/.pip'',
      ''/home/devlab/.conda'',
      ''/home/devlab/.m2'',
      ''/home/devlab/.gradle'',
      ''/home/devlab/.ivy2'',
      ''/home/devlab/.sbt'',
      ''/home/devlab/.cargo'',
      ''/home/devlab/.rustup'',
      ''/home/devlab/.node_modules'',
      ''/home/devlab/.yarn'',
      ''/home/devlab/.bundle'',
      ''/home/devlab/.gem'',
      ''/home/devlab/.pub-cache'',
      ''/home/devlab/.dart'',
      ''/home/devlab/.flutter'']"

fun matchesAny :: "string \<Rightarrow> string list \<Rightarrow> bool" where
  "matchesAny path [] = False"
| "matchesAny path (pattern # rest) =
     (if HasPrefix path pattern then True else matchesAny path rest)"

definition shouldSkipPath :: "string \<Rightarrow> bool" where
  "shouldSkipPath path = matchesAny path cachePatterns"

text \<open>
  The first loop of \<^verbatim>\<open>parseDirectoryStructure\<close>. \<open>structure\<close> is the slice of node
  values that is returned; \<open>pathMap\<close> maps a path to the node object the loop allocated
  for it. \<^verbatim>\<open>append(structure, *node)\<close> stores a copy of the node, so the two are
  separate from here on.
\<close>

type_synonym pathMap = "string \<rightharpoonup> FileNode"

definition lineNode :: "string \<Rightarrow> FileNode option" where
  "lineNode line =
     (if TrimSpace line = [] then None
      else
        (let parts = Fields line in
         if length parts \<noteq> 2 then None
         else
           (let path = parts ! 0; fileType = parts ! 1 in
            if \<not> HasPrefix path ''/home/devlab'' then None
            else if shouldSkipPath path then None
            else Some \<lparr>Path = path, Type = getNodeType fileType,
                        IsRoot = (path = ''/home/devlab''), Children = [],
                        Content = [], IsOpen = False, IsSaved = True\<rparr>)))"

fun firstPass :: "string list \<Rightarrow> FileNode list \<Rightarrow> pathMap \<Rightarrow> FileNode list \<times> pathMap" where
  "firstPass [] structure pm = (structure, pm)"
| "firstPass (line # lines) structure pm =
     (case lineNode line of
        None \<Rightarrow> firstPass lines structure pm
      | Some node \<Rightarrow> firstPass lines (structure @ [node]) (pm(Path node \<mapsto> node)))"

text \<open>
  The second loop ranges over the keys of \<open>pathMap\<close> and appends each path to the
  \<^verbatim>\<open>Children\<close> of its parent's node object in the map. Go leaves the order of a map's
  keys open: the order is the list \<open>keys\<close>.
\<close>

fun secondPass :: "string list \<Rightarrow> pathMap \<Rightarrow> pathMap" where
  "secondPass [] pm = pm"
| "secondPass (path # keys) pm =
     (if path = ''/home/devlab'' then secondPass keys pm
      else
        (let parentPath = getParentPath path in
         case pm parentPath of
           Some parent \<Rightarrow>
             secondPass keys (pm(parentPath \<mapsto> parent\<lparr>Children := Children parent @ [path]\<rparr>))
         | None \<Rightarrow> secondPass keys pm))"

text \<open>
  \<open>buildTree\<close> runs both passes and gives the slice together with the final map;
  \<open>rangeOrder\<close> is the order in which the Go runtime enumerates the keys of the map.
  \<^verbatim>\<open>parseDirectoryStructure\<close> returns the slice and a nil error.
\<close>

definition buildTree :: "(pathMap \<Rightarrow> string list) \<Rightarrow> string list \<Rightarrow> FileNode list \<times> pathMap" where
  "buildTree rangeOrder lines =
     (case firstPass lines [] Map.empty of
        (structure, pm) \<Rightarrow> (structure, secondPass (rangeOrder pm) pm))"

definition parseDirectoryStructure ::
  "(pathMap \<Rightarrow> string list) \<Rightarrow> string \<Rightarrow> FileNode list \<times> error option" where
  "parseDirectoryStructure rangeOrder output =
     (let lines = SplitLines (TrimSpace output) in
      if length lines = 0 then ([], None)
      else (fst (buildTree rangeOrder lines), None))"

subsection \<open>The metadata store (\<^verbatim>\<open>internal/storage/mongo.go\<close>)\<close>

text \<open>
  A \<^verbatim>\<open>context.Context\<close> is nil or not. A \<^verbatim>\<open>time.Time\<close> is a number of nanoseconds since
  the Unix epoch, a \<^verbatim>\<open>time.Duration\<close> a number of nanoseconds; \<open>zeroTime\<close> is the zero
  value of \<^verbatim>\<open>time.Time\<close> (January 1 of year 1).

  The driver encodes a \<^verbatim>\<open>time.Time\<close> as a BSON datetime, a whole number of milliseconds
  since the Unix epoch, rounded down. What the database stores, compares and gives back
  of an instant \<open>t\<close> is therefore \<open>bsonTime t\<close>, the start of the millisecond of \<open>t\<close>.
\<close>

datatype Context = NilContext | Background

definition zeroTime :: int where
  "zeroTime = - 62135596800000000000"

definition Hour :: int where
  "Hour = 3600000000000"

definition Millisecond :: int where
  "Millisecond = 1000000"

definition bsonTime :: "int \<Rightarrow> int" where
  "bsonTime t = (t div Millisecond) * Millisecond"

record Scenario =
  ScenarioID :: string
  UserID :: string
  ScenarioType :: string
  ContainerID :: string
  Status :: string
  TerminalPort :: int
  CreatedAt :: int
  UpdatedAt :: int

text \<open>
  The \<^verbatim>\<open>scenarios\<close> collection of the MongoDB database: its documents in their natural
  order, and which calls of the driver fail (the server is unreachable, the context is
  cancelled): a call fails when \<open>failing\<close> holds of it, and leaves the documents as
  they are. The collection has a unique index on \<^verbatim>\<open>scenario_id\<close>
  (\<^verbatim>\<open>configs/mongo-init.js\<close>). A \<^verbatim>\<open>*mongo.Database\<close> that is nil is \<open>None\<close>.
\<close>

datatype dbCall =
    InsertOne string
  | FindOne string
  | UpdateOne string
  | FindExpired
  | FindContainerIDs

record Database =
  docs :: "Scenario list"
  failing :: "dbCall \<Rightarrow> bool"

fun findDoc :: "string \<Rightarrow> Scenario list \<Rightarrow> Scenario option" where
  "findDoc scenarioID [] = None"
| "findDoc scenarioID (d # ds) = (if ScenarioID d = scenarioID then Some d else findDoc scenarioID ds)"

text \<open>
  \<^verbatim>\<open>UpdateOne(filter, {"$set": s})\<close> writes the fields of \<open>s\<close> into the first document
  with the scenario ID; the fields tagged \<^verbatim>\<open>omitempty\<close> (\<^verbatim>\<open>terminal_port\<close>,
  \<^verbatim>\<open>created_at\<close>, \<^verbatim>\<open>updated_at\<close>) are not part of the document the driver sends when
  \<open>s\<close> holds their zero value, and are then left as they are. The times that are
  written are BSON datetimes.
\<close>

definition setFields :: "Scenario \<Rightarrow> Scenario \<Rightarrow> Scenario" where
  "setFields s d =
     s\<lparr>TerminalPort := (if TerminalPort s = 0 then TerminalPort d else TerminalPort s),
       CreatedAt := (if CreatedAt s = zeroTime then CreatedAt d else bsonTime (CreatedAt s)),
       UpdatedAt := (if UpdatedAt s = zeroTime then UpdatedAt d else bsonTime (UpdatedAt s))\<rparr>"

fun updateDoc :: "Scenario \<Rightarrow> Scenario list \<Rightarrow> Scenario list" where
  "updateDoc s [] = []"
| "updateDoc s (d # ds) =
     (if ScenarioID d = ScenarioID s then setFields s d # ds else d # updateDoc s ds)"

text \<open>
  \<^verbatim>\<open>InsertOne\<close> appends the document of \<open>s\<close>, its times as BSON datetimes. A field
  tagged \<^verbatim>\<open>omitempty\<close> that is zero is left out of the document, and reads as the zero
  value again when the document is decoded.
\<close>

definition mongo_InsertOne :: "Database \<Rightarrow> Scenario \<Rightarrow> error option \<times> Database" where
  "mongo_InsertOne db s =
     (if failing db (InsertOne (ScenarioID s)) then (Some Mongo_DriverError, db)
      else if findDoc (ScenarioID s) (docs db) \<noteq> None then (Some Mongo_DuplicateKey, db)
      else (None, db\<lparr>docs := docs db @ [s\<lparr>CreatedAt := bsonTime (CreatedAt s),
                                           UpdatedAt := bsonTime (UpdatedAt s)\<rparr>]\<rparr>))"

definition mongo_FindOne :: "Database \<Rightarrow> string \<Rightarrow> error + Scenario" where
  "mongo_FindOne db scenarioID =
     (if failing db (FindOne scenarioID) then Inl Mongo_DriverError
      else case findDoc scenarioID (docs db) of
             None \<Rightarrow> Inl Mongo_ErrNoDocuments
           | Some d \<Rightarrow> Inr d)"

definition mongo_UpdateOne :: "Database \<Rightarrow> Scenario \<Rightarrow> error option \<times> Database" where
  "mongo_UpdateOne db s =
     (if failing db (UpdateOne (ScenarioID s)) then (Some Mongo_DriverError, db)
      else (None, db\<lparr>docs := updateDoc s (docs db)\<rparr>))"

definition StoreScenario ::
  "Context \<Rightarrow> Database option \<Rightarrow> Scenario option \<Rightarrow> error option \<times> Database option" where
  "StoreScenario ctx db s =
     (case db of
        None \<Rightarrow> (Some (Errorf ''%w'' Storage_ErrDatabaseNil), db)
      | Some d \<Rightarrow>
          (case s of
             None \<Rightarrow> (Some (Errorf ''%w: scenario cannot be nil'' Storage_ErrInvalidScenario), db)
           | Some sc \<Rightarrow>
               if ScenarioID sc = [] then
                 (Some (Errorf ''%w: scenario ID cannot be empty'' Storage_ErrInvalidScenario), db)
               else
                 (case mongo_InsertOne d sc of
                    (Some err, d') \<Rightarrow> (Some (Errorf ''failed to store scenario: %w'' err), Some d')
                  | (None, d') \<Rightarrow> (None, Some d'))))"

definition GetScenario :: "Context \<Rightarrow> Database option \<Rightarrow> string \<Rightarrow> error + Scenario" where
  "GetScenario ctx db scenarioID =
     (case db of
        None \<Rightarrow> Inl (Errorf ''%w'' Storage_ErrDatabaseNil)
      | Some d \<Rightarrow>
          if scenarioID = [] then
            Inl (Errorf ''%w: scenario ID cannot be empty'' Storage_ErrInvalidScenario)
          else
            (case mongo_FindOne d scenarioID of
               Inl err \<Rightarrow>
                 if err = Mongo_ErrNoDocuments then Inl (Errorf ''%w: %s'' Storage_ErrScenarioNotFound)
                 else Inl (Errorf ''failed to get scenario: %w'' err)
             | Inr sc \<Rightarrow> Inr sc))"

text \<open>
  \<^verbatim>\<open>UpdateScenario\<close> stamps the scenario with the current time \<open>now\<close> before it writes.
\<close>

definition UpdateScenario ::
  "int \<Rightarrow> Context \<Rightarrow> Database option \<Rightarrow> Scenario option \<Rightarrow> error option \<times> Database option" where
  "UpdateScenario now ctx db s =
     (case db of
        None \<Rightarrow> (Some (Errorf ''%w'' Storage_ErrDatabaseNil), db)
      | Some d \<Rightarrow>
          (case s of
             None \<Rightarrow> (Some (Errorf ''%w: scenario cannot be nil'' Storage_ErrInvalidScenario), db)
           | Some sc \<Rightarrow>
               if ScenarioID sc = [] then
                 (Some (Errorf ''%w: scenario ID cannot be empty'' Storage_ErrInvalidScenario), db)
               else
                 (case mongo_UpdateOne d (sc\<lparr>UpdatedAt := now\<rparr>) of
                    (Some err, d') \<Rightarrow> (Some (Errorf ''failed to update scenario: %w'' err), Some d')
                  | (None, d') \<Rightarrow> (None, Some d'))))"

subsection \<open>The container runtime as the managers see it (\<^verbatim>\<open>docker.Client\<close>)\<close>

text \<open>
  \<^verbatim>\<open>docker.Client\<close> is an interface; an implementation is a record of its eight methods
  over a runtime state \<open>'r\<close> of its own, which every call may read and change. A method
  that returns a value and an error returns \<open>Inl\<close> of the error or \<open>Inr\<close> of the value:
  the managers read the value only when the error is nil.
\<close>

record ContainerInfo =
  Info_ID :: string
  Info_Name :: string
  Info_Status :: string

record 'r Client =
  Client_StartScenarioContainer ::
    "Context \<Rightarrow> string \<Rightarrow> string \<Rightarrow> 'r \<Rightarrow> (error + string \<times> int) \<times> 'r"
  Client_GetContainerStatus :: "Context \<Rightarrow> string \<Rightarrow> 'r \<Rightarrow> (error + string) \<times> 'r"
  Client_GetTerminalURL :: "Context \<Rightarrow> string \<Rightarrow> 'r \<Rightarrow> (error + string) \<times> 'r"
  Client_StopContainer :: "Context \<Rightarrow> string \<Rightarrow> 'r \<Rightarrow> error option \<times> 'r"
  Client_ContainerExists :: "Context \<Rightarrow> string \<Rightarrow> 'r \<Rightarrow> (error + bool) \<times> 'r"
  Client_ExecuteCommand :: "Context \<Rightarrow> string \<Rightarrow> string list \<Rightarrow> 'r \<Rightarrow> (error + string) \<times> 'r"
  Client_ListContainers :: "Context \<Rightarrow> 'r \<Rightarrow> (error + ContainerInfo list) \<times> 'r"
  Client_RemoveContainer :: "Context \<Rightarrow> string \<Rightarrow> 'r \<Rightarrow> error option \<times> 'r"

subsection \<open>The scenario lifecycle manager (\<^verbatim>\<open>internal/scenario/scenario.go\<close>)\<close>

text \<open>
  What a call of the manager works on: the database behind \<^verbatim>\<open>m.DB\<close>, the state of the
  runtime behind \<^verbatim>\<open>m.Docker\<close>, and the clock \<^verbatim>\<open>time.Now()\<close> reads. The clock stands still
  during one call.
\<close>

record 'r World =
  mongo :: "Database option"
  runtime :: 'r
  clock :: int

record StartScenarioRequest =
  Req_UserID :: string
  Req_ScenarioType :: string
  Req_Script :: string

record StartScenarioResponse =
  Resp_ScenarioID :: string
  Resp_Status :: string


text \<open>\<^verbatim>\<open>fmt.Sprintf("%d", n)\<close>: the decimal digits of an integer.\<close>

function digits :: "nat \<Rightarrow> string" where
  "digits n =
     (if n < 10 then [''0123456789'' ! n]
      else digits (n div 10) @ [''0123456789'' ! (n mod 10)])"
  by pat_completeness auto
termination
  by (relation "measure (\<lambda>n. n)") auto

declare digits.simps [simp del]

definition Sprintf_d :: "int \<Rightarrow> string" where
  "Sprintf_d n = (if n < 0 then ''-'' @ digits (nat (- n)) else digits (nat n))"


definition StartScenario ::
  "'r Client \<Rightarrow> Context \<Rightarrow> StartScenarioRequest option \<Rightarrow> 'r World
     \<Rightarrow> (error + StartScenarioResponse) \<times> 'r World" where
  "StartScenario docker ctx req w =
     (if ctx = NilContext then (Inl (New ''nil context provided''), w)
      else case req of
        None \<Rightarrow> (Inl (New ''request cannot be nil''), w)
      | Some rq \<Rightarrow>
          if Req_UserID rq = [] then (Inl (New ''user ID cannot be empty''), w)
          else if Req_ScenarioType rq = [] then (Inl (New ''scenario type cannot be empty''), w)
          else
            (case Client_StartScenarioContainer docker ctx (Req_ScenarioType rq) (Req_Script rq)
                    (runtime w) of
               (Inl err, r1) \<Rightarrow>
                 (Inl (Errorf ''failed to provision container: %w'' err), w\<lparr>runtime := r1\<rparr>)
             | (Inr (containerID, terminalPort), r1) \<Rightarrow>
                 (let scenarioID = ''scn-'' @ Sprintf_d (clock w);
                      s = \<lparr>ScenarioID = scenarioID, UserID = Req_UserID rq,
                           ScenarioType = Req_ScenarioType rq, ContainerID = containerID,
                           Status = ''provisioning'', TerminalPort = terminalPort,
                           CreatedAt = clock w, UpdatedAt = clock w\<rparr>
                  in case StoreScenario ctx (mongo w) (Some s) of
                       (Some err, db1) \<Rightarrow>
                         (let r2 = snd (Client_StopContainer docker ctx containerID r1)
                          in (Inl (Errorf ''failed to store scenario metadata: %w'' err),
                              w\<lparr>mongo := db1, runtime := r2\<rparr>))
                     | (None, db1) \<Rightarrow>
                         (Inr \<lparr>Resp_ScenarioID = scenarioID, Resp_Status = ''provisioning''\<rparr>,
                          w\<lparr>mongo := db1, runtime := r1\<rparr>))))"


definition GetTerminalURL ::
  "'r Client \<Rightarrow> Context \<Rightarrow> string \<Rightarrow> 'r World \<Rightarrow> (error + string) \<times> 'r World" where
  "GetTerminalURL docker ctx scenarioID w =
     (if ctx = NilContext then (Inl (New ''nil context provided''), w)
      else if scenarioID = [] then
        (Inl (Errorf ''%w: scenario ID cannot be empty'' Scenario_ErrInvalidScenarioID), w)
      else case GetScenario ctx (mongo w) scenarioID of
        Inl err \<Rightarrow>
          if errors_Is err Storage_ErrScenarioNotFound
          then (Inl (Errorf ''%w: %s'' Scenario_ErrScenarioNotFound), w)
          else (Inl (Errorf ''failed to get scenario: %w'' err), w)
      | Inr scenario \<Rightarrow>
          if Status scenario \<noteq> ''running'' then
            (Inl (Errorf ''%w: scenario status is %s'' Scenario_ErrScenarioNotRunning), w)
          else
            (case Client_ContainerExists docker ctx (ContainerID scenario) (runtime w) of
               (Inl err, r1) \<Rightarrow>
                 (Inl (Errorf ''failed to verify container: %w'' err), w\<lparr>runtime := r1\<rparr>)
             | (Inr containerExists, r1) \<Rightarrow>
                 if \<not> containerExists then
                   (Inl (Errorf ''%w: container %s not found'' Scenario_ErrScenarioNotRunning),
                    w\<lparr>runtime := r1\<rparr>)
                 else
                   (case Client_GetTerminalURL docker ctx (ContainerID scenario) r1 of
                      (Inl err, r2) \<Rightarrow>
                        (Inl (Errorf ''failed to get terminal URL: %w'' err), w\<lparr>runtime := r2\<rparr>)
                    | (Inr terminalURL, r2) \<Rightarrow> (Inr terminalURL, w\<lparr>runtime := r2\<rparr>))))"

definition StopScenario ::
  "'r Client \<Rightarrow> Context \<Rightarrow> string \<Rightarrow> 'r World \<Rightarrow> error option \<times> 'r World" where
  "StopScenario docker ctx scenarioID w =
     (if ctx = NilContext then (Some (New ''nil context provided''), w)
      else if scenarioID = [] then
        (Some (Errorf ''%w: scenario ID cannot be empty'' Scenario_ErrInvalidScenarioID), w)
      else case GetScenario ctx (mongo w) scenarioID of
        Inl err \<Rightarrow>
          if errors_Is err Storage_ErrScenarioNotFound
          then (Some (Errorf ''%w: %s'' Scenario_ErrScenarioNotFound), w)
          else (Some (Errorf ''failed to get scenario: %w'' err), w)
      | Inr scenario \<Rightarrow>
          (case Client_StopContainer docker ctx (ContainerID scenario) (runtime w) of
             (stopErr, r1) \<Rightarrow>
               (let update =
                  (case UpdateScenario (clock w) ctx (mongo w)
                          (Some (scenario\<lparr>Status := ''stopped'', UpdatedAt := clock w\<rparr>)) of
                     (Some err, db1) \<Rightarrow>
                       (Some (Errorf ''failed to update scenario status: %w'' err),
                        w\<lparr>mongo := db1, runtime := r1\<rparr>)
                   | (None, db1) \<Rightarrow> (None, w\<lparr>mongo := db1, runtime := r1\<rparr>))
                in case stopErr of
                     None \<Rightarrow> update
                   | Some err \<Rightarrow>
                       if \<not> errors_Is err Docker_ErrContainerNotFound
                       then (Some (Errorf ''failed to stop container: %w'' err), w\<lparr>runtime := r1\<rparr>)
                       else update)))"

subsection \<open>The cleanup worker (\<^verbatim>\<open>internal/cleanup\<close>)\<close>

text \<open>
  The source of \<^verbatim>\<open>CleanupManager\<close> is the second part of
  \<^verbatim>\<open>src/internal/cleanup/cleanup_test.go\<close>, after the tests.
\<close>

record CleanupConfig =
  MaxScenarioAge :: int
  CleanupInterval :: int
  EnableCleanup :: bool

text \<open>
  \<^verbatim>\<open>findExpiredScenarios\<close>: the documents that match the filter
  \<^verbatim>\<open>{created_at: {$lt: cutoffTime}, status: {$in: [running, provisioning]}}\<close>, in the order
  of the collection. The cutoff reaches the database as a BSON datetime, and \<^verbatim>\<open>$lt\<close>
  compares it with the datetime of the document: both are whole milliseconds. A
  document without a \<^verbatim>\<open>created_at\<close> field (it was stored with the zero time, which
  \<^verbatim>\<open>omitempty\<close> leaves out) does not match \<^verbatim>\<open>$lt\<close>. The worker's database handle is
  never nil (\<^verbatim>\<open>cmd/worker/main.go\<close>); on a nil one \<^verbatim>\<open>cm.db.Collection\<close> panics. The
  documents are well-typed, so decoding the result of the query does not fail.
\<close>

definition expired :: "int \<Rightarrow> Scenario \<Rightarrow> bool" where
  "expired cutoffTime d =
     (CreatedAt d \<noteq> zeroTime \<and> bsonTime (CreatedAt d) < bsonTime cutoffTime
      \<and> (Status d = ''running'' \<or> Status d = ''provisioning''))"

definition findExpiredScenarios ::
  "Context \<Rightarrow> int \<Rightarrow> 'r World \<Rightarrow> error + Scenario list" where
  "findExpiredScenarios ctx maxAge w =
     (let cutoffTime = clock w - maxAge in
      case mongo w of
        None \<Rightarrow> Inl (Panic ''nil pointer dereference'')
      | Some d \<Rightarrow>
          if failing d FindExpired then Inl (Errorf ''failed to query expired scenarios: %w'' Mongo_DriverError)
          else Inr (filter (expired cutoffTime) (docs d)))"

definition cleanupScenario ::
  "'r Client \<Rightarrow> Context \<Rightarrow> Scenario \<Rightarrow> 'r World \<Rightarrow> error option \<times> 'r World" where
  "cleanupScenario docker ctx scenario w =
     (let r3 =
        (if ContainerID scenario \<noteq> [] then
           (case Client_ContainerExists docker ctx (ContainerID scenario) (runtime w) of
              (Inl err, r1) \<Rightarrow> r1
            | (Inr containerExists, r1) \<Rightarrow>
                if containerExists then
                  (let r2 =
                     (case Client_GetContainerStatus docker ctx (ContainerID scenario) r1 of
                        (Inl err, r) \<Rightarrow> r
                      | (Inr status, r) \<Rightarrow>
                          if status = ''running''
                          then snd (Client_StopContainer docker ctx (ContainerID scenario) r)
                          else r)
                   in snd (Client_RemoveContainer docker ctx (ContainerID scenario) r2))
                else r1)
         else runtime w)
      in case UpdateScenario (clock w) ctx (mongo w)
                (Some (scenario\<lparr>Status := ''cleaned_up'', UpdatedAt := clock w\<rparr>)) of
           (Some err, db1) \<Rightarrow>
             (Some (Errorf ''failed to update scenario status: %w'' err),
              w\<lparr>mongo := db1, runtime := r3\<rparr>)
         | (None, db1) \<Rightarrow> (None, w\<lparr>mongo := db1, runtime := r3\<rparr>))"

text \<open>The loop of \<^verbatim>\<open>CleanupExpiredScenarios\<close>: an error of one scenario is logged.\<close>

fun cleanupAll :: "'r Client \<Rightarrow> Context \<Rightarrow> Scenario list \<Rightarrow> 'r World \<Rightarrow> 'r World" where
  "cleanupAll docker ctx [] w = w"
| "cleanupAll docker ctx (scenario # rest) w =
     cleanupAll docker ctx rest (snd (cleanupScenario docker ctx scenario w))"

definition CleanupExpiredScenarios ::
  "CleanupConfig \<Rightarrow> 'r Client \<Rightarrow> Context \<Rightarrow> 'r World \<Rightarrow> error option \<times> 'r World" where
  "CleanupExpiredScenarios cfg docker ctx w =
     (let maxAge = (if MaxScenarioAge cfg = 0 then 24 * Hour else MaxScenarioAge cfg) in
      case findExpiredScenarios ctx maxAge w of
        Inl err \<Rightarrow>
          (case err of
             Panic msg \<Rightarrow> (Some err, w)
           | _ \<Rightarrow> (Some (Errorf ''failed to find expired scenarios: %w'' err), w))
      | Inr expiredScenarios \<Rightarrow> (None, cleanupAll docker ctx expiredScenarios w))"

text \<open>
  \<^verbatim>\<open>getScenarioContainerIDs\<close>: the \<^verbatim>\<open>map[string]bool\<close> of the container IDs of the documents
  whose \<^verbatim>\<open>container_id\<close> is not empty. The documents are well-typed, so decoding one does
  not fail.
\<close>

fun collectContainerIDs :: "Scenario list \<Rightarrow> (string \<rightharpoonup> bool) \<Rightarrow> (string \<rightharpoonup> bool)" where
  "collectContainerIDs [] containerIDs = containerIDs"
| "collectContainerIDs (scenario # rest) containerIDs =
     (if ContainerID scenario \<noteq> []
      then collectContainerIDs rest (containerIDs(ContainerID scenario \<mapsto> True))
      else collectContainerIDs rest containerIDs)"

definition getScenarioContainerIDs :: "Context \<Rightarrow> 'r World \<Rightarrow> error + (string \<rightharpoonup> bool)" where
  "getScenarioContainerIDs ctx w =
     (case mongo w of
        None \<Rightarrow> Inl (Panic ''nil pointer dereference'')
      | Some d \<Rightarrow>
          if failing d FindContainerIDs
          then Inl (Errorf ''failed to query scenario container IDs: %w'' Mongo_DriverError)
          else Inr (collectContainerIDs (filter (\<lambda>s. ContainerID s \<noteq> []) (docs d)) Map.empty))"

definition isScenarioContainer :: "string \<Rightarrow> (string \<rightharpoonup> bool) \<Rightarrow> bool" where
  "isScenarioContainer containerID scenarioContainers =
     (case scenarioContainers containerID of None \<Rightarrow> False | Some b \<Rightarrow> b)"

text \<open>
  The loop of \<^verbatim>\<open>CleanupOrphanedContainers\<close>, with the number of containers it counts as
  cleaned up.
\<close>

fun removeOrphans ::
  "'r Client \<Rightarrow> Context \<Rightarrow> (string \<rightharpoonup> bool) \<Rightarrow> ContainerInfo list \<Rightarrow> nat \<Rightarrow> 'r \<Rightarrow> nat \<times> 'r" where
  "removeOrphans docker ctx scenarioContainers [] orphanedCount r = (orphanedCount, r)"
| "removeOrphans docker ctx scenarioContainers (container # rest) orphanedCount r =
     (if \<not> isScenarioContainer (Info_ID container) scenarioContainers then
        (case Client_StopContainer docker ctx (Info_ID container) r of
           (Some err, r1) \<Rightarrow> removeOrphans docker ctx scenarioContainers rest orphanedCount r1
         | (None, r1) \<Rightarrow>
             (case Client_RemoveContainer docker ctx (Info_ID container) r1 of
                (Some err, r2) \<Rightarrow> removeOrphans docker ctx scenarioContainers rest orphanedCount r2
              | (None, r2) \<Rightarrow>
                  removeOrphans docker ctx scenarioContainers rest (orphanedCount + 1) r2))
      else removeOrphans docker ctx scenarioContainers rest orphanedCount r)"

definition CleanupOrphanedContainers ::
  "'r Client \<Rightarrow> Context \<Rightarrow> 'r World \<Rightarrow> error option \<times> 'r World" where
  "CleanupOrphanedContainers docker ctx w =
     (case Client_ListContainers docker ctx (runtime w) of
        (Inl err, r1) \<Rightarrow> (Some (Errorf ''failed to list containers: %w'' err), w\<lparr>runtime := r1\<rparr>)
      | (Inr containers, r1) \<Rightarrow>
          (case getScenarioContainerIDs ctx w of
             Inl err \<Rightarrow>
               (case err of
                  Panic msg \<Rightarrow> (Some err, w\<lparr>runtime := r1\<rparr>)
                | _ \<Rightarrow> (Some (Errorf ''failed to get scenario container IDs: %w'' err),
                         w\<lparr>runtime := r1\<rparr>))
           | Inr scenarioContainers \<Rightarrow>
               (None, w\<lparr>runtime := snd (removeOrphans docker ctx scenarioContainers containers 0 r1)\<rparr>)))"

text \<open>One cycle of \<^verbatim>\<open>RunPeriodicCleanup\<close>: both sweeps, the error of either logged; a
  panic ends the cycle.\<close>

definition cleanupCycle :: "CleanupConfig \<Rightarrow> 'r Client \<Rightarrow> Context \<Rightarrow> 'r World \<Rightarrow> 'r World" where
  "cleanupCycle cfg docker ctx w =
     (case CleanupExpiredScenarios cfg docker ctx w of
        (Some (Panic msg), w1) \<Rightarrow> w1
      | (err, w1) \<Rightarrow> snd (CleanupOrphanedContainers docker ctx w1))"

subsection \<open>The Docker engine behind \<^verbatim>\<open>RealClient\<close>\<close>

text \<open>
  The engine as its API shows it to \<^verbatim>\<open>RealClient\<close>: the containers by ID, each with its
  image, names, state, the port map of its network settings (the settings or the map may
  be nil) and the port bindings of its host configuration. \<open>refused\<close> tells which calls
  of the API fail for a reason of the engine's (daemon down, timeout); \<open>portBusy\<close> tells
  on which host ports \<^verbatim>\<open>net.Listen\<close> fails; \<open>idSupply\<close> names the containers the engine
  creates; \<open>bootStatus\<close> is the state a container is found in five seconds after its
  start; \<open>execResult\<close> is the output and the exit code of a command run in a container.
\<close>

record PortBinding =
  HostIP :: string
  HostPort :: string

record Container =
  Image :: string
  Names :: "string list"
  State_Status :: string
  Summary_Status :: string
  NetworkSettings_Ports :: "(string \<times> PortBinding list) list option option"
  HostConfig_PortBindings :: "(string \<times> PortBinding list) list"

datatype engineCall =
    NewClientWithOpts
  | ContainerInspect string
  | ContainerStop string
  | ContainerRemove string
  | ContainerCreate
  | ContainerStart string
  | ContainerList
  | ContainerExecCreate string
  | ContainerExecAttach string
  | ReadAll string
  | ContainerExecInspect string

record Engine =
  containers :: "(string \<times> Container) list"
  refused :: "engineCall \<Rightarrow> bool"
  portBusy :: "int \<Rightarrow> bool"
  idSupply :: "nat \<Rightarrow> string"
  created :: nat
  bootStatus :: string
  execResult :: "string \<Rightarrow> string list \<Rightarrow> string \<times> int"

definition cli_ContainerInspect :: "Engine \<Rightarrow> string \<Rightarrow> error + Container" where
  "cli_ContainerInspect e containerID =
     (if refused e (ContainerInspect containerID) then Inl Engine_Error
      else case map_of (containers e) containerID of
             None \<Rightarrow> Inl Engine_NotFound
           | Some c \<Rightarrow> Inr c)"

text \<open>\<^verbatim>\<open>client.IsErrNotFound\<close>.\<close>

definition IsErrNotFound :: "error \<Rightarrow> bool" where
  "IsErrNotFound err = (err = Engine_NotFound)"

text \<open>Stopping leaves an existing container exited.\<close>

definition cli_ContainerStop :: "Engine \<Rightarrow> string \<Rightarrow> error option \<times> Engine" where
  "cli_ContainerStop e containerID =
     (if refused e (ContainerStop containerID) then (Some Engine_Error, e)
      else case map_of (containers e) containerID of
             None \<Rightarrow> (Some Engine_NotFound, e)
           | Some c \<Rightarrow>
               (None, e\<lparr>containers :=
                          AList.update containerID (c\<lparr>State_Status := ''exited''\<rparr>) (containers e)\<rparr>))"

text \<open>
  Removal without force: the engine refuses to remove a container that is running,
  paused or restarting.
\<close>

definition cli_ContainerRemove :: "Engine \<Rightarrow> string \<Rightarrow> error option \<times> Engine" where
  "cli_ContainerRemove e containerID =
     (if refused e (ContainerRemove containerID) then (Some Engine_Error, e)
      else case map_of (containers e) containerID of
             None \<Rightarrow> (Some Engine_NotFound, e)
           | Some c \<Rightarrow>
               if State_Status c = ''running'' \<or> State_Status c = ''paused''
                  \<or> State_Status c = ''restarting''
               then (Some Engine_Conflict, e)
               else (None, e\<lparr>containers := AList.delete containerID (containers e)\<rparr>))"

definition cli_ContainerCreate ::
  "Engine \<Rightarrow> string \<Rightarrow> (string \<times> PortBinding list) list \<Rightarrow> (error + string) \<times> Engine" where
  "cli_ContainerCreate e imageName portBindings =
     (if refused e ContainerCreate then (Inl Engine_Error, e)
      else
        (let newID = idSupply e (created e) in
         (Inr newID,
          e\<lparr>containers := AList.update newID
                 \<lparr>Image = imageName, Names = [], State_Status = ''created'', Summary_Status = ''Created'',
                  NetworkSettings_Ports = Some (Some []),
                  HostConfig_PortBindings = portBindings\<rparr> (containers e),
            created := created e + 1\<rparr>)))"

definition cli_ContainerStart :: "Engine \<Rightarrow> string \<Rightarrow> error option \<times> Engine" where
  "cli_ContainerStart e containerID =
     (if refused e (ContainerStart containerID) then (Some Engine_Error, e)
      else case map_of (containers e) containerID of
             None \<Rightarrow> (Some Engine_NotFound, e)
           | Some c \<Rightarrow>
               (None, e\<lparr>containers :=
                          AList.update containerID
                            (c\<lparr>State_Status := bootStatus e,
                               NetworkSettings_Ports := Some (Some (HostConfig_PortBindings c))\<rparr>)
                            (containers e)\<rparr>))"

definition cli_ContainerList :: "Engine \<Rightarrow> error + (string \<times> Container) list" where
  "cli_ContainerList e =
     (if refused e ContainerList then Inl Engine_Error else Inr (containers e))"

subsection \<open>\<^verbatim>\<open>RealClient\<close> (\<^verbatim>\<open>internal/docker\<close>)\<close>

text \<open>
  The source of \<^verbatim>\<open>RealClient\<close> and of the package's errors is the last part of
  \<^verbatim>\<open>src/internal/cleanup/cleanup_test.go\<close>.
\<close>

text \<open>
  \<^verbatim>\<open>findAvailablePort\<close>: the loop \<^verbatim>\<open>for port := 3001; port < 3010; port++\<close>, which returns
  the first port \<^verbatim>\<open>net.Listen\<close> accepts.
\<close>

function findPortFrom :: "(int \<Rightarrow> bool) \<Rightarrow> int \<Rightarrow> error + int" where
  "findPortFrom busy port =
     (if port < 3010 then
        (if \<not> busy port then Inr port else findPortFrom busy (port + 1))
      else Inl (Errorf ''%w: no available ports found in range 3001-3009'' Docker_ErrPortUnavailable))"
  by pat_completeness auto
termination
  by (relation "measure (\<lambda>(busy, port). nat (3010 - port))") auto

declare findPortFrom.simps [simp del]

definition findAvailablePort :: "(int \<Rightarrow> bool) \<Rightarrow> error + int" where
  "findAvailablePort busy = findPortFrom busy 3001"

definition selectImage :: "string \<Rightarrow> string" where
  "selectImage scenarioType =
     (if scenarioType = ''go'' then ''devlab-go:latest''
      else if scenarioType = ''docker'' then ''devlab-docker:latest''
      else if scenarioType = ''k8s'' then ''devlab-k8s:latest''
      else if scenarioType = ''python'' then ''devlab-python:latest''
      else if scenarioType = ''go-k8s'' then ''devlab-go-k8s:latest''
      else if scenarioType = ''python-k8s'' then ''devlab-python-k8s:latest''
      else ''devlab-go:latest'')"

text \<open>
  \<^verbatim>\<open>StartScenarioContainer\<close>. The command of the container is a fixed shell script around
  \<open>scenarioType\<close> and \<open>script\<close>; the engine of this model does not read it.
\<close>

definition RealClient_StartScenarioContainer ::
  "Context \<Rightarrow> string \<Rightarrow> string \<Rightarrow> Engine \<Rightarrow> (error + string \<times> int) \<times> Engine" where
  "RealClient_StartScenarioContainer ctx scenarioType script e =
     (if ctx = NilContext then (Inl (New ''nil context provided''), e)
      else if refused e NewClientWithOpts
      then (Inl (Errorf ''%w: %v'' Docker_ErrDockerDaemonUnavailable), e)
      else if scenarioType = []
      then (Inl (Errorf ''%w: scenario type cannot be empty'' Docker_ErrInvalidScenarioType), e)
      else
        (case findAvailablePort (portBusy e) of
           Inl err \<Rightarrow> (Inl (Errorf ''%w: %v'' Docker_ErrPortUnavailable), e)
         | Inr hostPort \<Rightarrow>
             (let portBindings =
                    [(''3000/tcp'', [\<lparr>HostIP = ''0.0.0.0'', HostPort = Sprintf_d hostPort\<rparr>])]
              in case cli_ContainerCreate e (selectImage scenarioType) portBindings of
                   (Inl err, e1) \<Rightarrow> (Inl (Errorf ''failed to create container: %w'' err), e1)
                 | (Inr respID, e1) \<Rightarrow>
                     (case cli_ContainerStart e1 respID of
                        (Some err, e2) \<Rightarrow>
                          (Inl (Errorf ''failed to start container: %w'' err),
                           snd (cli_ContainerRemove e2 respID))
                      | (None, e2) \<Rightarrow>
                          (case cli_ContainerInspect e2 respID of
                             Inl err \<Rightarrow>
                               (Inl (Errorf ''failed to verify container status: %w'' err), e2)
                           | Inr containerInfo \<Rightarrow>
                               if State_Status containerInfo \<noteq> ''running''
                               then (Inl (Errorf ''%w: container exited unexpectedly''
                                            Docker_ErrTTYDFailedToStart), e2)
                               else (Inr (respID, hostPort), e2))))))"

definition RealClient_GetContainerStatus ::
  "Context \<Rightarrow> string \<Rightarrow> Engine \<Rightarrow> (error + string) \<times> Engine" where
  "RealClient_GetContainerStatus ctx containerID e =
     (if ctx = NilContext then (Inl (New ''nil context provided''), e)
      else if containerID = [] then (Inl (New ''container ID cannot be empty''), e)
      else if refused e NewClientWithOpts
      then (Inl (Errorf ''%w: %v'' Docker_ErrDockerDaemonUnavailable), e)
      else case cli_ContainerInspect e containerID of
             Inl err \<Rightarrow> (Inl (Errorf ''%w: %v'' Docker_ErrContainerNotFound), e)
           | Inr containerInfo \<Rightarrow> (Inr (State_Status containerInfo), e))"

definition RealClient_GetTerminalURL ::
  "Context \<Rightarrow> string \<Rightarrow> Engine \<Rightarrow> (error + string) \<times> Engine" where
  "RealClient_GetTerminalURL ctx containerID e =
     (if ctx = NilContext then (Inl (New ''nil context provided''), e)
      else if containerID = [] then (Inl (New ''container ID cannot be empty''), e)
      else if refused e NewClientWithOpts
      then (Inl (Errorf ''%w: %v'' Docker_ErrDockerDaemonUnavailable), e)
      else case cli_ContainerInspect e containerID of
             Inl err \<Rightarrow> (Inl (Errorf ''%w: %v'' Docker_ErrContainerNotFound), e)
           | Inr containerInfo \<Rightarrow>
               if State_Status containerInfo \<noteq> ''running''
               then (Inl (Errorf ''%w: container status is %s'' Docker_ErrContainerNotRunning), e)
               else
                 (case NetworkSettings_Ports containerInfo of
                    None \<Rightarrow> (Inl (New ''no port mappings found for container %s''), e)
                  | Some None \<Rightarrow> (Inl (New ''no port mappings found for container %s''), e)
                  | Some (Some ports) \<Rightarrow>
                      (case map_of ports ''3000/tcp'' of
                         None \<Rightarrow> (Inl (New ''port 3000 not mapped for container %s''), e)
                       | Some [] \<Rightarrow> (Inl (New ''port 3000 not mapped for container %s''), e)
                       | Some (binding # others) \<Rightarrow>
                           (let hostPort = HostPort binding;
                                hostIP = (if HostIP binding = [] then ''localhost''
                                          else HostIP binding)
                            in (Inr (''http://'' @ hostIP @ '':'' @ hostPort), e)))))"

definition RealClient_StopContainer :: "Context \<Rightarrow> string \<Rightarrow> Engine \<Rightarrow> error option \<times> Engine" where
  "RealClient_StopContainer ctx containerID e =
     (if ctx = NilContext then (Some (New ''nil context provided''), e)
      else if containerID = [] then (Some (New ''container ID cannot be empty''), e)
      else if refused e NewClientWithOpts
      then (Some (Errorf ''%w: %v'' Docker_ErrDockerDaemonUnavailable), e)
      else case cli_ContainerInspect e containerID of
             Inl err \<Rightarrow>
               if IsErrNotFound err
               then (Some (Errorf ''%w: container %s'' Docker_ErrContainerNotFound), e)
               else (Some (Errorf ''failed to check container existence: %w'' err), e)
           | Inr containerInfo \<Rightarrow>
               if State_Status containerInfo = ''exited'' \<or> State_Status containerInfo = ''stopped''
               then
                 (case cli_ContainerRemove e containerID of
                    (Some err, e1) \<Rightarrow>
                      (Some (Errorf ''failed to remove stopped container: %w'' err), e1)
                  | (None, e1) \<Rightarrow> (None, e1))
               else
                 (case cli_ContainerStop e containerID of
                    (Some err, e1) \<Rightarrow> (Some (Errorf ''failed to stop container: %w'' err), e1)
                  | (None, e1) \<Rightarrow>
                      (case cli_ContainerRemove e1 containerID of
                         (Some err, e2) \<Rightarrow>
                           (Some (Errorf ''failed to remove container: %w'' err), e2)
                       | (None, e2) \<Rightarrow> (None, e2))))"

definition RealClient_ContainerExists ::
  "Context \<Rightarrow> string \<Rightarrow> Engine \<Rightarrow> (error + bool) \<times> Engine" where
  "RealClient_ContainerExists ctx containerID e =
     (if ctx = NilContext then (Inl (New ''nil context provided''), e)
      else if containerID = [] then (Inl (New ''container ID cannot be empty''), e)
      else if refused e NewClientWithOpts
      then (Inl (Errorf ''%w: %v'' Docker_ErrDockerDaemonUnavailable), e)
      else case cli_ContainerInspect e containerID of
             Inl err \<Rightarrow>
               if IsErrNotFound err then (Inr False, e)
               else (Inl (Errorf ''failed to inspect container: %w'' err), e)
           | Inr containerInfo \<Rightarrow> (Inr True, e))"

definition RealClient_ExecuteCommand ::
  "Context \<Rightarrow> string \<Rightarrow> string list \<Rightarrow> Engine \<Rightarrow> (error + string) \<times> Engine" where
  "RealClient_ExecuteCommand ctx containerID command e =
     (if ctx = NilContext then (Inl (New ''nil context provided''), e)
      else if containerID = [] then (Inl (New ''container ID cannot be empty''), e)
      else if length command = 0 then (Inl (New ''command cannot be empty''), e)
      else if refused e NewClientWithOpts
      then (Inl (Errorf ''%w: %v'' Docker_ErrDockerDaemonUnavailable), e)
      else case cli_ContainerInspect e containerID of
             Inl err \<Rightarrow> (Inl (Errorf ''%w: %v'' Docker_ErrContainerNotFound), e)
           | Inr containerInfo \<Rightarrow>
               if State_Status containerInfo \<noteq> ''running''
               then (Inl (Errorf ''%w: container status is %s'' Docker_ErrContainerNotRunning), e)
               else if refused e (ContainerExecCreate containerID)
               then (Inl (Errorf ''failed to create exec: %w'' Engine_Error), e)
               else if refused e (ContainerExecAttach containerID)
               then (Inl (Errorf ''failed to attach to exec: %w'' Engine_Error), e)
               else if refused e (ReadAll containerID)
               then (Inl (Errorf ''failed to read exec output: %w'' Engine_Error), e)
               else if refused e (ContainerExecInspect containerID)
               then (Inl (Errorf ''failed to inspect exec: %w'' Engine_Error), e)
               else
                 (case execResult e containerID command of
                    (output, exitCode) \<Rightarrow>
                      if exitCode \<noteq> 0 then (Inl (New ''command failed with exit code %d''), e)
                      else (Inr output, e)))"

definition containerInfoOf :: "string \<times> Container \<Rightarrow> ContainerInfo" where
  "containerInfoOf entry =
     (case entry of
        (containerID, container) \<Rightarrow>
          \<lparr>Info_ID = containerID,
           Info_Name = (if 0 < length (Names container) then Names container ! 0 else containerID),
           Info_Status = Summary_Status container\<rparr>)"

definition RealClient_ListContainers ::
  "Context \<Rightarrow> Engine \<Rightarrow> (error + ContainerInfo list) \<times> Engine" where
  "RealClient_ListContainers ctx e =
     (if ctx = NilContext then (Inl (New ''nil context provided''), e)
      else if refused e NewClientWithOpts
      then (Inl (Errorf ''%w: %v'' Docker_ErrDockerDaemonUnavailable), e)
      else case cli_ContainerList e of
             Inl err \<Rightarrow> (Inl (Errorf ''failed to list containers: %w'' err), e)
           | Inr cs \<Rightarrow> (Inr (map containerInfoOf cs), e))"

definition RealClient_RemoveContainer :: "Context \<Rightarrow> string \<Rightarrow> Engine \<Rightarrow> error option \<times> Engine" where
  "RealClient_RemoveContainer ctx containerID e =
     (if ctx = NilContext then (Some (New ''nil context provided''), e)
      else if containerID = [] then (Some (New ''container ID cannot be empty''), e)
      else if refused e NewClientWithOpts
      then (Some (Errorf ''%w: %v'' Docker_ErrDockerDaemonUnavailable), e)
      else case cli_ContainerInspect e containerID of
             Inl err \<Rightarrow> (Some (Errorf ''%w: %v'' Docker_ErrContainerNotFound), e)
           | Inr containerInfo \<Rightarrow>
               (case (if State_Status containerInfo = ''running''
                      then cli_ContainerStop e containerID else (None, e)) of
                  (Some err, e1) \<Rightarrow> (Some (Errorf ''failed to stop container: %w'' err), e1)
                | (None, e1) \<Rightarrow>
                    (case cli_ContainerRemove e1 containerID of
                       (Some err, e2) \<Rightarrow> (Some (Errorf ''failed to remove container: %w'' err), e2)
                     | (None, e2) \<Rightarrow> (None, e2))))"

definition RealClient :: "Engine Client" where
  "RealClient =
     \<lparr>Client_StartScenarioContainer = RealClient_StartScenarioContainer,
      Client_GetContainerStatus = RealClient_GetContainerStatus,
      Client_GetTerminalURL = RealClient_GetTerminalURL,
      Client_StopContainer = RealClient_StopContainer,
      Client_ContainerExists = RealClient_ContainerExists,
      Client_ExecuteCommand = RealClient_ExecuteCommand,
      Client_ListContainers = RealClient_ListContainers,
      Client_RemoveContainer = RealClient_RemoveContainer\<rparr>"

section \<open>The specification's words and the inputs of the examples\<close>

text \<open>
  A path under the workspace root, in the words of the specification: the root
  \<^verbatim>\<open>/home/devlab\<close> itself or a path below it. A line of the listing that is an entry of
  the tree: it is not blank, it consists of exactly two fields separated by white space,
  its path is under the workspace root and no prefix of the denylist is a prefix of the
  path.
\<close>

definition underRoot :: "string \<Rightarrow> bool" where
  "underRoot path = (path = ''/home/devlab'' \<or> HasPrefix path ''/home/devlab/'')"

definition entryLine :: "string \<Rightarrow> bool" where
  "entryLine line =
     (TrimSpace line \<noteq> [] \<and> length (Fields line) = 2
      \<and> underRoot (Fields line ! 0)
      \<and> \<not> (\<exists>pattern \<in> set cachePatterns. HasPrefix (Fields line ! 0) pattern))"

text \<open>
  The listing of the specification's example under the workspace root of the code: the
  root, a file \<^verbatim>\<open>a\<close>, a directory \<^verbatim>\<open>b\<close> and a file \<^verbatim>\<open>b/c\<close>, as
  \<^verbatim>\<open>find -printf "%p %y\n"\<close> prints them; the same lines in another order; an order of
  the keys of the map; a listing with a blank line, a line of three fields, a path
  outside the root and a path of the denylist around one entry; and a listing with one
  path that is not under the workspace root but starts with the characters of the root.
\<close>

definition treeListing :: string where
  "treeListing = ''/home/devlab d'' @ [CHR 0x0A] @ ''/home/devlab/a f'' @ [CHR 0x0A]
      @ ''/home/devlab/b d'' @ [CHR 0x0A] @ ''/home/devlab/b/c f'' @ [CHR 0x0A]"

definition treeListingPermuted :: string where
  "treeListingPermuted = ''/home/devlab/b/c f'' @ [CHR 0x0A] @ ''/home/devlab/a f'' @ [CHR 0x0A]
      @ ''/home/devlab d'' @ [CHR 0x0A] @ ''/home/devlab/b d'' @ [CHR 0x0A]"

definition treeKeys :: "string list" where
  "treeKeys = [''/home/devlab/b/c'', ''/home/devlab'', ''/home/devlab/a'', ''/home/devlab/b'']"

definition noisyListing :: string where
  "noisyListing = [CHR 0x0A] @ ''/home/devlab/x f'' @ [CHR 0x0A, CHR 0x0A] @ ''/home/devlab a b''
      @ [CHR 0x0A] @ ''/etc/passwd f'' @ [CHR 0x0A] @ ''/home/devlab/.cache/y f'' @ [CHR 0x0A]"

definition outsideListing :: string where
  "outsideListing = ''/home/devlabXYZ/secret f'' @ [CHR 0x0A]"




text \<open>
  The status the store holds for a scenario ID, and whether the store accepts the update
  of the scenario's document.
\<close>

definition persistedStatus :: "Database option \<Rightarrow> string \<Rightarrow> string option" where
  "persistedStatus db scenarioID =
     (case db of None \<Rightarrow> None | Some d \<Rightarrow> map_option Status (findDoc scenarioID (docs d)))"

definition updateAccepted :: "Database option \<Rightarrow> string \<Rightarrow> bool" where
  "updateAccepted db scenarioID =
     (case db of None \<Rightarrow> False | Some d \<Rightarrow> \<not> failing d (UpdateOne scenarioID))"

text \<open>The host binding of the interactive-shell port 3000 of a container, if it has one.\<close>

definition shellPortBinding :: "Container \<Rightarrow> PortBinding option" where
  "shellPortBinding c =
     (case NetworkSettings_Ports c of
        Some (Some ports) \<Rightarrow>
          (case map_of ports ''3000/tcp'' of
             Some (binding # others) \<Rightarrow> Some binding
           | _ \<Rightarrow> None)
      | _ \<Rightarrow> None)"

text \<open>
  A store with one scenario, an engine with its container, and the world of both; the
  same with a store that refuses the update of the scenario, and with a container that
  is up without a binding of port 3000.
\<close>

definition scenarioA :: Scenario where
  "scenarioA =
     \<lparr>ScenarioID = ''scn-1'', UserID = ''alice'', ScenarioType = ''go'', ContainerID = ''c1'',
      Status = ''provisioning'', TerminalPort = 3001, CreatedAt = 1000000000,
      UpdatedAt = 1000000000\<rparr>"

definition containerA :: Container where
  "containerA =
     \<lparr>Image = ''devlab-go:latest'', Names = [''/c1''], State_Status = ''running'',
      Summary_Status = ''Up 2 minutes'',
      NetworkSettings_Ports =
        Some (Some [(''3000/tcp'', [\<lparr>HostIP = ''0.0.0.0'', HostPort = ''3001''\<rparr>])]),
      HostConfig_PortBindings = [(''3000/tcp'', [\<lparr>HostIP = ''0.0.0.0'', HostPort = ''3001''\<rparr>])]\<rparr>"

definition engineOf :: "(string \<times> Container) list \<Rightarrow> Engine" where
  "engineOf cs =
     \<lparr>containers = cs, refused = (\<lambda>call. False), portBusy = (\<lambda>port. False),
      idSupply = (\<lambda>n. ''new-'' @ Sprintf_d (int n)), created = 0, bootStatus = ''running'',
      execResult = (\<lambda>containerID command. ([], 0))\<rparr>"

definition storeOf :: "Scenario list \<Rightarrow> Database" where
  "storeOf ds = \<lparr>docs = ds, failing = (\<lambda>call. False)\<rparr>"

definition worldA :: "Engine World" where
  "worldA = \<lparr>mongo = Some (storeOf [scenarioA]), runtime = engineOf [(''c1'', containerA)],
             clock = 5000000000\<rparr>"

definition worldUnmapped :: "Engine World" where
  "worldUnmapped =
     \<lparr>mongo = Some (storeOf [scenarioA\<lparr>Status := ''running''\<rparr>]),
      runtime = engineOf [(''c1'', containerA\<lparr>NetworkSettings_Ports := Some (Some [])\<rparr>)],
      clock = 5000000000\<rparr>"

text \<open>
  A store and an engine that refuse no call, and an answer of \<^verbatim>\<open>StopContainer\<close> that
  \<^verbatim>\<open>StopScenario\<close> takes for success: no error, or an error that is
  \<^verbatim>\<open>ErrContainerNotFound\<close>.
\<close>

definition storeHealthy :: "Database option \<Rightarrow> bool" where
  "storeHealthy db = (case db of None \<Rightarrow> False | Some d \<Rightarrow> \<forall>call. \<not> failing d call)"

definition engineHealthy :: "Engine \<Rightarrow> bool" where
  "engineHealthy e = (\<forall>call. \<not> refused e call)"

definition stopAnswerOk :: "error option \<Rightarrow> bool" where
  "stopAnswerOk stopErr =
     (case stopErr of None \<Rightarrow> True | Some err \<Rightarrow> errors_Is err Docker_ErrContainerNotFound)"

text \<open>
  The store refuses the insert of a new record: the database handle is nil, the call
  fails, or the scenario ID is taken (the unique index).
\<close>

definition insertRefused :: "Database option \<Rightarrow> string \<Rightarrow> bool" where
  "insertRefused db scenarioID =
     (case db of
        None \<Rightarrow> True
      | Some d \<Rightarrow> failing d (InsertOne scenarioID) \<or> findDoc scenarioID (docs d) \<noteq> None)"

text \<open>A request, and the world \<open>worldA\<close> with a store that fails every insert.\<close>

definition requestB :: StartScenarioRequest where
  "requestB = \<lparr>Req_UserID = ''bob'', Req_ScenarioType = ''python'', Req_Script = ''echo hi''\<rparr>"

definition worldNoInsert :: "Engine World" where
  "worldNoInsert =
     \<lparr>mongo = Some \<lparr>docs = [scenarioA],
                    failing = (\<lambda>call. case call of InsertOne scenarioID \<Rightarrow> True | _ \<Rightarrow> False)\<rparr>,
      runtime = engineOf [(''c1'', containerA)], clock = 5000000000\<rparr>"

text \<open>
  The engine accepts the calls of a list: it refuses none of them. The world
  \<open>worldNoInsert\<close> with an engine that refuses to stop the container it creates next.
\<close>

definition engineAccepts :: "Engine \<Rightarrow> engineCall list \<Rightarrow> bool" where
  "engineAccepts e calls = list_all (\<lambda>call. \<not> refused e call) calls"

definition worldNoRollback :: "Engine World" where
  "worldNoRollback =
     worldNoInsert\<lparr>runtime := (runtime worldNoInsert)\<lparr>refused := (\<lambda>call. call = ContainerStop ''new-0'')\<rparr>\<rparr>"

text \<open>
  What the calls of \<^verbatim>\<open>RealClient\<close> that stop and remove containers do to an engine:
  \<open>shrinks e e'\<close> when \<open>e'\<close> refuses the calls \<open>e\<close> refuses and each container of
  \<open>e'\<close> is a container of \<open>e\<close>, as it was or exited; \<open>frame k e e'\<close> when every
  container but \<open>k\<close> is as it was. A container is removable when it is not paused or
  restarting (states in which the engine refuses the removal and \<^verbatim>\<open>RemoveContainer\<close> does
  not stop the container first).
\<close>

definition shrinks :: "Engine \<Rightarrow> Engine \<Rightarrow> bool" where
  "shrinks e e' =
     (refused e' = refused e
      \<and> (\<forall>k. case map_of (containers e') k of
                None \<Rightarrow> True
              | Some c' \<Rightarrow>
                  (case map_of (containers e) k of
                     None \<Rightarrow> False
                   | Some c \<Rightarrow> c' = c \<or> c' = c\<lparr>State_Status := ''exited''\<rparr>)))"

definition frame :: "string \<Rightarrow> Engine \<Rightarrow> Engine \<Rightarrow> bool" where
  "frame containerID e e' =
     (\<forall>k. k \<noteq> containerID \<longrightarrow> map_of (containers e') k = map_of (containers e) k)"



definition referenced :: "Database \<Rightarrow> string \<Rightarrow> bool" where
  "referenced d containerID = (containerID \<noteq> [] \<and> containerID \<in> ContainerID ` set (docs d))"












text \<open>
  A store with the scenario of container \<^verbatim>\<open>c1\<close> and an engine that also holds two
  containers of no scenario and refuses to stop the first of them.
\<close>

definition worldOrphans :: "Engine World" where
  "worldOrphans =
     \<lparr>mongo = Some (storeOf [scenarioA]),
      runtime = (engineOf [(''c1'', containerA), (''c8'', containerA), (''c9'', containerA)])
                  \<lparr>refused := (\<lambda>call. call = ContainerStop ''c8'')\<rparr>,
      clock = 5000000000\<rparr>"

text \<open>
  A white space rune as a byte string: one ASCII white space character or one of the
  encodings; \<open>lead\<close> holds of the bytes such a rune can start with.
\<close>

definition lead :: "char \<Rightarrow> bool" where
  "lead c = (asciiSpace c \<or> c = CHR 0xC2 \<or> c = CHR 0xE1 \<or> c = CHR 0xE2 \<or> c = CHR 0xE3)"

definition rune :: "string \<Rightarrow> bool" where
  "rune r = ((\<exists>c. r = [c] \<and> asciiSpace c) \<or> r \<in> set unicodeSpaces2 \<or> r \<in> set unicodeSpaces3)"

section \<open>Properties\<close>

subsection \<open>Host-port allocation\<close>

lemma findPortFrom_Inr:
  "findPortFrom busy port = Inr q \<Longrightarrow>
     port \<le> q \<and> q < 3010 \<and> \<not> busy q \<and> (\<forall>r. port \<le> r \<and> r < q \<longrightarrow> busy r)"
proof (induction busy port rule: findPortFrom.induct)
  case (1 busy port)
  show ?case
  proof (cases "port < 3010 \<and> busy port")
    case True
    then have "findPortFrom busy (port + 1) = Inr q"
      using "1.prems" by (simp add: findPortFrom.simps [of busy port])
    with True "1.IH" have ih: "port + 1 \<le> q \<and> q < 3010 \<and> \<not> busy q \<and> (\<forall>r. port + 1 \<le> r \<and> r < q \<longrightarrow> busy r)"
      by simp
    have "\<And>r. port \<le> r \<Longrightarrow> r < q \<Longrightarrow> busy r"
    proof -
      fix r assume "port \<le> r" "r < q"
      then consider "r = port" | "port + 1 \<le> r" by linarith
      then show "busy r" using True ih \<open>r < q\<close> by cases auto
    qed
    with ih show ?thesis by auto
  next
    case False
    then show ?thesis
      using "1.prems" by (auto simp: findPortFrom.simps [of busy port] split: if_splits)
  qed
qed

lemma findPortFrom_Inl:
  "findPortFrom busy port = Inl err \<Longrightarrow>
     err = Errorf ''%w: no available ports found in range 3001-3009'' Docker_ErrPortUnavailable
     \<and> (\<forall>r. port \<le> r \<and> r < 3010 \<longrightarrow> busy r)"
proof (induction busy port rule: findPortFrom.induct)
  case (1 busy port)
  show ?case
  proof (cases "port < 3010")
    case True
    with "1.prems" have b: "busy port" and rec: "findPortFrom busy (port + 1) = Inl err"
      by (auto simp: findPortFrom.simps [of busy port] split: if_splits)
    with True "1.IH" have ih: "err = Errorf ''%w: no available ports found in range 3001-3009'' Docker_ErrPortUnavailable
     \<and> (\<forall>r. port + 1 \<le> r \<and> r < 3010 \<longrightarrow> busy r)" by simp
    have "\<And>r. port \<le> r \<Longrightarrow> r < 3010 \<Longrightarrow> busy r"
    proof -
      fix r assume "port \<le> r" "r < 3010"
      then consider "r = port" | "port + 1 \<le> r" by linarith
      then show "busy r" using b ih \<open>r < 3010\<close> by cases auto
    qed
    with ih show ?thesis by auto
  next
    case False
    then show ?thesis
      using "1.prems" by (auto simp: findPortFrom.simps [of busy port])
  qed
qed

text \<open>
  C8. Host-port allocation probes the ports 3001 to 3009 in order and ends for every
  availability of ports: it returns a port of that range (the first one free), or, when
  all nine are busy, it fails with an error of the kind \<^verbatim>\<open>ErrPortUnavailable\<close>.
  \<open>findPortFrom\<close> is a total function: its loop was shown to terminate where it is
  defined.
\<close>

theorem findAvailablePort_bounded:
  "(\<exists>port. findAvailablePort busy = Inr port \<and> 3001 \<le> port \<and> port \<le> 3009 \<and> \<not> busy port
        \<and> (\<forall>q. 3001 \<le> q \<and> q < port \<longrightarrow> busy q))
   \<or> (\<exists>err. findAvailablePort busy = Inl err \<and> errors_Is err Docker_ErrPortUnavailable
        \<and> (\<forall>q. 3001 \<le> q \<and> q \<le> 3009 \<longrightarrow> busy q))"
proof (cases "findAvailablePort busy")
  case (Inl err)
  then have "findPortFrom busy 3001 = Inl err" by (simp add: findAvailablePort_def)
  from findPortFrom_Inl [OF this] Inl show ?thesis by auto
next
  case (Inr port)
  then have "findPortFrom busy 3001 = Inr port" by (simp add: findAvailablePort_def)
  from findPortFrom_Inr [OF this] Inr show ?thesis by auto
qed

theorem findAvailablePort_bounded_witness:
  "findAvailablePort (\<lambda>p. p < 3003) = Inr 3003
   \<and> (\<exists>err. findAvailablePort (\<lambda>p. True) = Inl err \<and> errors_Is err Docker_ErrPortUnavailable)"
  using findAvailablePort_bounded [of "\<lambda>p. p < 3003"] findAvailablePort_bounded [of "\<lambda>p. True"]
  by (auto simp: findAvailablePort_def findPortFrom.simps)

subsection \<open>The directory tree builder\<close>

lemma lineNode_None:
  "lineNode line = None \<longleftrightarrow>
     \<not> (TrimSpace line \<noteq> [] \<and> length (Fields line) = 2
        \<and> HasPrefix (Fields line ! 0) ''/home/devlab'' \<and> \<not> shouldSkipPath (Fields line ! 0))"
  by (simp add: lineNode_def Let_def)

lemma lineNode_Some:
  "lineNode line = Some node \<Longrightarrow>
     TrimSpace line \<noteq> [] \<and> length (Fields line) = 2
     \<and> HasPrefix (Fields line ! 0) ''/home/devlab'' \<and> \<not> shouldSkipPath (Fields line ! 0)
     \<and> Path node = Fields line ! 0 \<and> Type node = getNodeType (Fields line ! 1)
     \<and> IsRoot node = (Fields line ! 0 = ''/home/devlab'') \<and> Children node = []"
  by (auto simp: lineNode_def Let_def split: if_splits)

lemma firstPass_structure:
  "fst (firstPass lines acc pm) = acc @ List.map_filter lineNode lines"
  by (induction lines arbitrary: acc pm)
     (auto simp: List.map_filter_simps split: option.splits)

text \<open>The slice that is returned is the slice of the first loop: the second loop writes
  to the node objects of the map only.\<close>

lemma parseDirectoryStructure_nodes:
  "fst (parseDirectoryStructure rangeOrder output)
     = List.map_filter lineNode (SplitLines (TrimSpace output))"
  by (simp add: parseDirectoryStructure_def buildTree_def Let_def firstPass_structure
        List.map_filter_simps split: prod.splits)
     (metis firstPass_structure append_Nil fst_conv)

lemma map_filter_lineNode_origin:
  "node \<in> set (List.map_filter lineNode lines) \<Longrightarrow> \<exists>line \<in> set lines. lineNode line = Some node"
  by (auto simp: List.map_filter_def)

lemma returned_children_empty:
  "node \<in> set (fst (parseDirectoryStructure rangeOrder output)) \<Longrightarrow> Children node = []"
  unfolding parseDirectoryStructure_nodes
  using map_filter_lineNode_origin lineNode_Some by blast

lemma mset_map_filter:
  "mset (List.map_filter f xs)
     = image_mset (\<lambda>x. the (f x)) (filter_mset (\<lambda>x. f x \<noteq> None) (mset xs))"
  by (induction xs) (auto simp: List.map_filter_simps split: option.splits)

text \<open>
  Trimming the output changes no node: white space at either end is only blank lines or
  white space around the fields of the first and the last line.
\<close>

lemma unicodeSpaces2_length: "x \<in> set unicodeSpaces2 \<Longrightarrow> length x = 2"
  by (auto simp: unicodeSpaces2_def)

lemma unicodeSpaces3_length: "x \<in> set unicodeSpaces3 \<Longrightarrow> length x = 3"
  by (auto simp: unicodeSpaces3_def)

lemma spaceLen_le: "spaceLen s \<le> length s"
proof (cases s)
  case Nil
  then show ?thesis by (simp add: spaceLen_def)
next
  case (Cons c cs)
  have a: "take 2 s \<in> set unicodeSpaces2 \<Longrightarrow> 2 \<le> length s"
    using unicodeSpaces2_length [of "take 2 s"] by simp
  have b: "take 3 s \<in> set unicodeSpaces3 \<Longrightarrow> 3 \<le> length s"
    using unicodeSpaces3_length [of "take 3 s"] by simp
  show ?thesis
    using a b Cons by (simp add: spaceLen_def)
qed

lemma fieldsFrom_skip: "fieldsFrom j cur cs = fieldsFrom 0 cur (drop j cs)"
proof (induction cs arbitrary: j)
  case Nil
  show ?case by simp
next
  case (Cons c cs)
  show ?case
  proof (cases j)
    case 0
    then show ?thesis by simp
  next
    case (Suc i)
    with Cons.IH [of i] show ?thesis by simp
  qed
qed

lemma Fields_drop_space: "Fields (drop (spaceLen s) s) = Fields s"
proof (cases s)
  case Nil
  then show ?thesis by (simp add: spaceLen_def)
next
  case (Cons c cs)
  show ?thesis
  proof (cases "spaceLen s = 0")
    case True
    then show ?thesis by simp
  next
    case False
    then obtain k where k: "spaceLen s = Suc k" by (cases "spaceLen s") auto
    have "Fields s = fieldsFrom k [] cs"
      using k Cons by (simp add: Fields_def)
    also have "\<dots> = fieldsFrom 0 [] (drop k cs)" by (rule fieldsFrom_skip)
    finally show ?thesis using k Cons by (simp add: Fields_def)
  qed
qed

lemma Fields_trimLeftN: "Fields (trimLeftN n s) = Fields s"
  by (induction n s rule: trimLeftN.induct) (auto simp: Fields_drop_space)


lemma unicodeSpaces2_bytes:
  "[a, b] \<in> set unicodeSpaces2 \<Longrightarrow> a = CHR 0xC2 \<and> \<not> lead b"
  by (auto simp: unicodeSpaces2_def lead_def asciiSpace_def)

lemma unicodeSpaces3_bytes:
  "[a, b, c] \<in> set unicodeSpaces3 \<Longrightarrow>
     (a = CHR 0xE1 \<or> a = CHR 0xE2 \<or> a = CHR 0xE3) \<and> \<not> lead b \<and> \<not> lead c"
  by (simp add: unicodeSpaces3_def lead_def asciiSpace_def) auto

lemma rune_lead: "rune r \<Longrightarrow> r \<noteq> [] \<and> lead (hd r)"
proof -
  assume r: "rune r"
  then consider c where "r = [c]" "asciiSpace c" | "r \<in> set unicodeSpaces2"
    | "r \<in> set unicodeSpaces3" by (auto simp: rune_def)
  then show ?thesis
  proof cases
    case 1
    then show ?thesis by (simp add: lead_def)
  next
    case 2
    from unicodeSpaces2_length [OF 2] obtain a b where "r = [a, b]"
      by (cases r; cases "tl r") auto
    with 2 unicodeSpaces2_bytes [of a b] show ?thesis by (simp add: lead_def)
  next
    case 3
    from unicodeSpaces3_length [OF 3] obtain a b c where "r = [a, b, c]"
      by (cases r; cases "tl r"; cases "tl (tl r)") auto
    with 3 unicodeSpaces3_bytes [of a b c] show ?thesis by (auto simp: lead_def)
  qed
qed

lemma rune_spaceLen: "rune r \<Longrightarrow> spaceLen (r @ t) = length r"
proof -
  assume r: "rune r"
  then consider c where "r = [c]" "asciiSpace c" | "r \<in> set unicodeSpaces2"
    | "r \<in> set unicodeSpaces3" by (auto simp: rune_def)
  then show ?thesis
  proof cases
    case 1
    then show ?thesis by (simp add: spaceLen_def)
  next
    case 2
    from unicodeSpaces2_length [OF 2] obtain a b where ab: "r = [a, b]"
      by (cases r; cases "tl r") auto
    with 2 unicodeSpaces2_bytes [of a b] have "\<not> asciiSpace a"
      by (auto simp: asciiSpace_def)
    with 2 ab show ?thesis by (simp add: spaceLen_def)
  next
    case 3
    from unicodeSpaces3_length [OF 3] obtain a b c where abc: "r = [a, b, c]"
      by (cases r; cases "tl r"; cases "tl (tl r)") auto
    with 3 unicodeSpaces3_bytes [of a b c] have na: "\<not> asciiSpace a" and a: "a \<noteq> CHR 0xC2"
      by (auto simp: asciiSpace_def)
    have "[a, b] \<notin> set unicodeSpaces2" using a unicodeSpaces2_bytes [of a b] by auto
    with 3 abc na show ?thesis by (simp add: spaceLen_def)
  qed
qed

lemma spaceLen_rune: "0 < spaceLen s \<Longrightarrow> rune (take (spaceLen s) s)"
  by (cases s) (auto simp: spaceLen_def rune_def split: if_splits)

lemma spaceLenEnd_rune: "0 < spaceLenEnd s \<Longrightarrow> rune (drop (length s - spaceLenEnd s) s)"
proof -
  assume p: "0 < spaceLenEnd s"
  then have ne: "s \<noteq> []" by (auto simp: spaceLenEnd_def)
  have "drop (length (butlast s)) (butlast s @ [last s]) = [last s]" by simp
  then have l: "drop (length s - Suc 0) s = [last s]"
    using ne by simp
  show ?thesis
    using p l by (auto simp: spaceLenEnd_def rune_def split: if_splits)
qed

lemma spaceLenEnd_le: "spaceLenEnd s \<le> length s"
  by (cases s) (auto simp: spaceLenEnd_def)


lemma take2_append_rune:
  assumes "rune r" "x \<noteq> []"
  shows "take 2 (x @ r) \<in> set unicodeSpaces2 \<longleftrightarrow> take 2 x \<in> set unicodeSpaces2"
proof (cases "2 \<le> length x")
  case True
  then show ?thesis by simp
next
  case False
  with assms(2) obtain c where x: "x = [c]" by (cases x; cases "tl x") auto
  from rune_lead [OF assms(1)] obtain a t where r: "r = a # t" "lead a" by (cases r) auto
  have "[c, a] \<notin> set unicodeSpaces2" using unicodeSpaces2_bytes [of c a] r(2) by auto
  moreover have "[c] \<notin> set unicodeSpaces2" using unicodeSpaces2_length [of "[c]"] by auto
  ultimately show ?thesis using x r by simp
qed

lemma take3_append_rune:
  assumes "rune r" "x \<noteq> []"
  shows "take 3 (x @ r) \<in> set unicodeSpaces3 \<longleftrightarrow> take 3 x \<in> set unicodeSpaces3"
proof (cases "3 \<le> length x")
  case True
  then show ?thesis by simp
next
  case False
  from rune_lead [OF assms(1)] obtain a t where r: "r = a # t" "lead a" by (cases r) auto
  have short: "take 3 x \<notin> set unicodeSpaces3"
    using unicodeSpaces3_length [of "take 3 x"] False by auto
  have "take 3 (x @ r) \<notin> set unicodeSpaces3"
  proof
    assume m: "take 3 (x @ r) \<in> set unicodeSpaces3"
    from False assms(2) consider c where "x = [c]" | c d where "x = [c, d]"
      by (cases x; cases "tl x"; cases "tl (tl x)") auto
    then show False
    proof cases
      case 1
      from unicodeSpaces3_length [OF m] 1 r obtain b where t: "take 3 (x @ r) = [c, a, b]"
        by (cases t) auto
      with m unicodeSpaces3_bytes [of c a b] r(2) show False by simp
    next
      case 2
      then have "take 3 (x @ r) = [c, d, a]" using r by simp
      with m unicodeSpaces3_bytes [of c d a] r(2) show False by simp
    qed
  qed
  with short show ?thesis by simp
qed

lemma spaceLen_append_rune:
  assumes "rune r" "x \<noteq> []"
  shows "spaceLen (x @ r) = spaceLen x"
proof -
  from assms(2) obtain c cs where x: "x = c # cs" by (cases x) auto
  show ?thesis
    using take2_append_rune [OF assms] take3_append_rune [OF assms] x
    by (simp add: spaceLen_def)
qed

lemma fieldsFrom_end: "length cs \<le> j \<Longrightarrow> fieldsFrom j cur cs = (if cur = [] then [] else [rev cur])"
  by (induction cs arbitrary: j) auto

lemma fieldsFrom_append_rune:
  assumes "rune r"
  shows "j \<le> length l \<Longrightarrow> fieldsFrom j cur (l @ r) = fieldsFrom j cur l"
proof (induction l arbitrary: j cur)
  case Nil
  from rune_lead [OF assms] obtain a t where r: "r = a # t" by (cases r) auto
  have k: "spaceLen r = length r" using rune_spaceLen [OF assms, of "[]"] by simp
  have "fieldsFrom (length t) [] t = []" by (simp add: fieldsFrom_end)
  then show ?case using Nil r k by simp
next
  case (Cons c cs)
  show ?case
  proof (cases "0 < j")
    case True
    with Cons.prems have "j - 1 \<le> length cs" by simp
    from Cons.IH [OF this] True show ?thesis by simp
  next
    case False
    have s: "spaceLen (c # cs @ r) = spaceLen (c # cs)"
      using spaceLen_append_rune [OF assms, of "c # cs"] by simp
    have le: "spaceLen (c # cs) - 1 \<le> length cs"
      using spaceLen_le [of "c # cs"] by simp
    show ?thesis
      using False s Cons.IH [OF le] Cons.IH [of 0] by simp
  qed
qed

lemma Fields_append_rune: "rune r \<Longrightarrow> Fields (l @ r) = Fields l"
  by (simp add: Fields_def fieldsFrom_append_rune)

lemma Fields_rune_append: "rune r \<Longrightarrow> Fields (r @ l) = Fields l"
  using Fields_drop_space [of "r @ l"] rune_spaceLen [of r l] by simp


lemma Fields_trimRightN: "Fields (trimRightN n s) = Fields s"
proof (induction n s rule: trimRightN.induct)
  case (1 s)
  show ?case by simp
next
  case (2 n s)
  show ?case
  proof (cases "spaceLenEnd s = 0")
    case True
    then show ?thesis by simp
  next
    case False
    let ?k = "spaceLenEnd s"
    have r: "rune (drop (length s - ?k) s)" using False by (simp add: spaceLenEnd_rune)
    have "Fields s = Fields (take (length s - ?k) s @ drop (length s - ?k) s)" by simp
    also have "\<dots> = Fields (take (length s - ?k) s)" using r by (rule Fields_append_rune)
    finally show ?thesis using False 2 by simp
  qed
qed

lemma Fields_TrimSpace: "Fields (TrimSpace s) = Fields s"
  by (simp add: TrimSpace_def Let_def Fields_trimRightN Fields_trimLeftN)

lemma Fields_Nil: "Fields [] = []"
  by (simp add: Fields_def)

lemma lineNode_cong: "Fields l = Fields l' \<Longrightarrow> lineNode l = lineNode l'"
proof -
  assume e: "Fields l = Fields l'"
  have a: "TrimSpace x = [] \<Longrightarrow> length (Fields x) \<noteq> 2" for x
    using Fields_TrimSpace [of x] by (simp add: Fields_Nil)
  show ?thesis
    using e a [of l] a [of l'] by (auto simp: lineNode_def Let_def)
qed

lemma lineNode_Nil: "lineNode [] = None"
  by (simp add: lineNode_def TrimSpace_def)

lemma splitFrom_no_newline:
  "CHR 0x0A \<notin> set a \<Longrightarrow> splitFrom cur (a @ b) = splitFrom (rev a @ cur) b"
  by (induction a arbitrary: cur) auto

lemma splitFrom_nonempty: "splitFrom cur s \<noteq> []"
  by (induction s arbitrary: cur) auto

lemma splitFrom_cur:
  "splitFrom cur s = (rev cur @ hd (splitFrom [] s)) # tl (splitFrom [] s)"
proof (induction s arbitrary: cur)
  case Nil
  show ?case by simp
next
  case (Cons c cs)
  show ?case
  proof (cases "c = CHR 0x0A")
    case True
    then show ?thesis by simp
  next
    case False
    then show ?thesis
      using Cons.IH [of "c # cur"] Cons.IH [of "[c]"] by simp
  qed
qed

lemma splitFrom_append_tail:
  "CHR 0x0A \<notin> set t \<Longrightarrow>
     splitFrom cur (s @ t) = butlast (splitFrom cur s) @ [last (splitFrom cur s) @ t]"
proof (induction s arbitrary: cur)
  case Nil
  then show ?case using splitFrom_no_newline [of t cur "[]"] by simp
next
  case (Cons c cs)
  then show ?case by (simp add: splitFrom_nonempty)
qed

lemma splitFrom_append_newline:
  "splitFrom cur (s @ [CHR 0x0A]) = splitFrom cur s @ [[]]"
  by (induction s arbitrary: cur) auto

lemma rune_newline: "rune r \<Longrightarrow> r = [CHR 0x0A] \<or> CHR 0x0A \<notin> set r"
  by (auto simp: rune_def unicodeSpaces2_def unicodeSpaces3_def)

lemma nodes_rune_append:
  assumes "rune r"
  shows "List.map_filter lineNode (SplitLines (r @ rest)) = List.map_filter lineNode (SplitLines rest)"
proof (cases "r = [CHR 0x0A]")
  case True
  then show ?thesis by (simp add: SplitLines_def List.map_filter_simps lineNode_Nil)
next
  case False
  with rune_newline [OF assms] have nn: "CHR 0x0A \<notin> set r" by simp
  let ?X = "splitFrom [] rest"
  have "SplitLines (r @ rest) = splitFrom (rev r) rest"
    using splitFrom_no_newline [OF nn, of "[]" rest] by (simp add: SplitLines_def)
  also have "\<dots> = (r @ hd ?X) # tl ?X" using splitFrom_cur [of "rev r" rest] by simp
  finally have a: "SplitLines (r @ rest) = (r @ hd ?X) # tl ?X" .
  have b: "SplitLines rest = hd ?X # tl ?X"
    using splitFrom_nonempty [of "[]" rest] by (simp add: SplitLines_def)
  have c: "lineNode (r @ hd ?X) = lineNode (hd ?X)"
    by (rule lineNode_cong) (rule Fields_rune_append [OF assms])
  show ?thesis by (simp only: a b List.map_filter_simps c)
qed

lemma map_filter_append:
  "List.map_filter f (xs @ ys) = List.map_filter f xs @ List.map_filter f ys"
  by (simp add: List.map_filter_def)

lemma nodes_append_rune:
  assumes "rune r"
  shows "List.map_filter lineNode (SplitLines (front @ r)) = List.map_filter lineNode (SplitLines front)"
proof (cases "r = [CHR 0x0A]")
  case True
  then show ?thesis
    by (simp add: SplitLines_def splitFrom_append_newline map_filter_append
          List.map_filter_simps lineNode_Nil)
next
  case False
  with rune_newline [OF assms] have nn: "CHR 0x0A \<notin> set r" by simp
  let ?X = "splitFrom [] front"
  have a: "SplitLines (front @ r) = butlast ?X @ [last ?X @ r]"
    using splitFrom_append_tail [OF nn] by (simp add: SplitLines_def)
  have b: "SplitLines front = butlast ?X @ [last ?X]"
    using splitFrom_nonempty [of "[]" front] by (simp add: SplitLines_def)
  have c: "lineNode (last ?X @ r) = lineNode (last ?X)"
    by (rule lineNode_cong) (rule Fields_append_rune [OF assms])
  show ?thesis by (simp only: a b map_filter_append List.map_filter_simps c)
qed

lemma nodes_trimLeftN:
  "List.map_filter lineNode (SplitLines (trimLeftN n s)) = List.map_filter lineNode (SplitLines s)"
proof (induction n s rule: trimLeftN.induct)
  case (1 s)
  show ?case by simp
next
  case (2 n s)
  show ?case
  proof (cases "spaceLen s = 0")
    case True
    then show ?thesis by simp
  next
    case False
    let ?k = "spaceLen s"
    have r: "rune (take ?k s)" using False by (simp add: spaceLen_rune)
    have "List.map_filter lineNode (SplitLines (take ?k s @ drop ?k s))
            = List.map_filter lineNode (SplitLines (drop ?k s))"
      using r by (rule nodes_rune_append)
    then show ?thesis using False 2 by simp
  qed
qed

lemma nodes_trimRightN:
  "List.map_filter lineNode (SplitLines (trimRightN n s)) = List.map_filter lineNode (SplitLines s)"
proof (induction n s rule: trimRightN.induct)
  case (1 s)
  show ?case by simp
next
  case (2 n s)
  show ?case
  proof (cases "spaceLenEnd s = 0")
    case True
    then show ?thesis by simp
  next
    case False
    let ?k = "spaceLenEnd s"
    have r: "rune (drop (length s - ?k) s)" using False by (simp add: spaceLenEnd_rune)
    have "List.map_filter lineNode (SplitLines (take (length s - ?k) s @ drop (length s - ?k) s))
            = List.map_filter lineNode (SplitLines (take (length s - ?k) s))"
      using r by (rule nodes_append_rune)
    then show ?thesis using False 2 by simp
  qed
qed

lemma nodes_TrimSpace:
  "List.map_filter lineNode (SplitLines (TrimSpace s)) = List.map_filter lineNode (SplitLines s)"
  by (simp add: TrimSpace_def Let_def nodes_trimRightN nodes_trimLeftN)

lemma parseDirectoryStructure_lines:
  "fst (parseDirectoryStructure rangeOrder output) = List.map_filter lineNode (SplitLines output)"
  by (simp add: parseDirectoryStructure_nodes nodes_TrimSpace)

lemma treeListing_lines:
  "SplitLines treeListing
     = [''/home/devlab d'', ''/home/devlab/a f'', ''/home/devlab/b d'', ''/home/devlab/b/c f'', []]"
  by code_simp

lemma treeListingPermuted_lines:
  "SplitLines treeListingPermuted
     = [''/home/devlab/b/c f'', ''/home/devlab/a f'', ''/home/devlab d'', ''/home/devlab/b d'', []]"
  by code_simp

lemma tree_nodes:
  "List.map_filter lineNode
     [''/home/devlab d'', ''/home/devlab/a f'', ''/home/devlab/b d'', ''/home/devlab/b/c f'', []]
   = [\<lparr>Path = ''/home/devlab'', Type = ''folder'', IsRoot = True, Children = [],
        Content = [], IsOpen = False, IsSaved = True\<rparr>,
      \<lparr>Path = ''/home/devlab/a'', Type = ''file'', IsRoot = False, Children = [],
        Content = [], IsOpen = False, IsSaved = True\<rparr>,
      \<lparr>Path = ''/home/devlab/b'', Type = ''folder'', IsRoot = False, Children = [],
        Content = [], IsOpen = False, IsSaved = True\<rparr>,
      \<lparr>Path = ''/home/devlab/b/c'', Type = ''file'', IsRoot = False, Children = [],
        Content = [], IsOpen = False, IsSaved = True\<rparr>]"
  by code_simp

lemma tree_map_children:
  "map (\<lambda>k. map_option Children
              (snd (buildTree (\<lambda>pm. treeKeys) (SplitLines (TrimSpace treeListing))) k)) treeKeys
     = [Some [], Some [''/home/devlab/a'', ''/home/devlab/b''], Some [], Some [''/home/devlab/b/c'']]"
  by code_simp

text \<open>
  C5. On the example listing the builder returns the four nodes, each with an empty list
  of children, whatever the order of the map's keys: no node appears as a child of
  another, and the children of the root are not \<^verbatim>\<open>/home/devlab/a\<close> and
  \<^verbatim>\<open>/home/devlab/b\<close>. The second loop does compute these links, in the node objects of
  the map (here for the key order \<open>treeKeys\<close>), which the function does not return.
\<close>

theorem parseDirectoryStructure_example_children:
  "fst (parseDirectoryStructure rangeOrder treeListing)
     = [\<lparr>Path = ''/home/devlab'', Type = ''folder'', IsRoot = True, Children = [],
          Content = [], IsOpen = False, IsSaved = True\<rparr>,
        \<lparr>Path = ''/home/devlab/a'', Type = ''file'', IsRoot = False, Children = [],
          Content = [], IsOpen = False, IsSaved = True\<rparr>,
        \<lparr>Path = ''/home/devlab/b'', Type = ''folder'', IsRoot = False, Children = [],
          Content = [], IsOpen = False, IsSaved = True\<rparr>,
        \<lparr>Path = ''/home/devlab/b/c'', Type = ''file'', IsRoot = False, Children = [],
          Content = [], IsOpen = False, IsSaved = True\<rparr>]
   \<and> map (\<lambda>k. map_option Children
                (snd (buildTree (\<lambda>pm. treeKeys) (SplitLines (TrimSpace treeListing))) k)) treeKeys
     = [Some [], Some [''/home/devlab/a'', ''/home/devlab/b''], Some [], Some [''/home/devlab/b/c'']]"
proof (rule conjI)
  show "fst (parseDirectoryStructure rangeOrder treeListing)
     = [\<lparr>Path = ''/home/devlab'', Type = ''folder'', IsRoot = True, Children = [],
          Content = [], IsOpen = False, IsSaved = True\<rparr>,
        \<lparr>Path = ''/home/devlab/a'', Type = ''file'', IsRoot = False, Children = [],
          Content = [], IsOpen = False, IsSaved = True\<rparr>,
        \<lparr>Path = ''/home/devlab/b'', Type = ''folder'', IsRoot = False, Children = [],
          Content = [], IsOpen = False, IsSaved = True\<rparr>,
        \<lparr>Path = ''/home/devlab/b/c'', Type = ''file'', IsRoot = False, Children = [],
          Content = [], IsOpen = False, IsSaved = True\<rparr>]"
    by (simp only: parseDirectoryStructure_lines treeListing_lines tree_nodes)
qed (rule tree_map_children)

text \<open>
  C9. The builder does not depend on the order of the listing: two outputs whose lines
  (the strings between line feeds) are the same up to their order give the same nodes
  (as a multiset, hence as a set), each with the same path, type, root flag and
  children, for any orders in which the keys of the map are enumerated.
\<close>

theorem parseDirectoryStructure_order_insensitive:
  assumes "mset (SplitLines output1) = mset (SplitLines output2)"
  shows "mset (fst (parseDirectoryStructure order1 output1))
           = mset (fst (parseDirectoryStructure order2 output2))
         \<and> set (fst (parseDirectoryStructure order1 output1))
           = set (fst (parseDirectoryStructure order2 output2))"
proof -
  have m: "mset (fst (parseDirectoryStructure order1 output1))
           = mset (fst (parseDirectoryStructure order2 output2))"
    by (simp add: parseDirectoryStructure_lines mset_map_filter assms)
  from m mset_eq_setD [OF m] show ?thesis by simp
qed

theorem parseDirectoryStructure_order_insensitive_witness:
  "mset (SplitLines treeListing) = mset (SplitLines treeListingPermuted)
   \<and> set (fst (parseDirectoryStructure (\<lambda>pm. treeKeys) treeListing))
       = set (fst (parseDirectoryStructure (\<lambda>pm. rev treeKeys) treeListingPermuted))"
proof -
  have h: "mset (SplitLines treeListing) = mset (SplitLines treeListingPermuted)"
    by (simp add: treeListing_lines treeListingPermuted_lines)
  from parseDirectoryStructure_order_insensitive [OF h] h show ?thesis by blast
qed

text \<open>
  What the builder skips. The error result is nil on every input. Every node comes from
  a line of the output that is not blank, has exactly two fields, and a path that starts
  with the characters \<^verbatim>\<open>/home/devlab\<close> and with no prefix of the denylist; and every line
  that is an entry in the words of the specification gives a node. On \<open>noisyListing\<close>
  the blank lines, the line of three fields, \<^verbatim>\<open>/etc/passwd\<close> and the path of the denylist
  give no node.
\<close>

lemma parseDirectoryStructure_error_nil:
  "snd (parseDirectoryStructure rangeOrder output) = None"
  by (simp add: parseDirectoryStructure_def Let_def)

lemma parseDirectoryStructure_empty:
  "parseDirectoryStructure rangeOrder [] = ([], None)"
  by (simp add: parseDirectoryStructure_def Let_def TrimSpace_def SplitLines_def buildTree_def
        lineNode_def)

lemma matchesAny_set:
  "matchesAny path patterns \<longleftrightarrow> (\<exists>pattern \<in> set patterns. HasPrefix path pattern)"
  by (induction patterns) auto

lemma HasPrefix_append: "HasPrefix s (p @ q) \<Longrightarrow> HasPrefix s p"
  by (auto simp: HasPrefix_def)
     (metis append_eq_conv_conj take_take min.absorb1 le_add1 length_append)

lemma underRoot_HasPrefix: "underRoot path \<Longrightarrow> HasPrefix path ''/home/devlab''"
  using HasPrefix_append [of path "''/home/devlab''" "''/''"]
  by (auto simp: underRoot_def) (simp add: HasPrefix_def)

lemma entryLine_kept: "entryLine line \<Longrightarrow> lineNode line \<noteq> None"
  by (simp add: lineNode_None entryLine_def shouldSkipPath_def matchesAny_set underRoot_HasPrefix)

lemma parseDirectoryStructure_origin:
  assumes "node \<in> set (fst (parseDirectoryStructure rangeOrder output))"
  shows "\<exists>line \<in> set (SplitLines output).
           TrimSpace line \<noteq> [] \<and> length (Fields line) = 2
           \<and> HasPrefix (Fields line ! 0) ''/home/devlab'' \<and> \<not> shouldSkipPath (Fields line ! 0)
           \<and> Path node = Fields line ! 0 \<and> Type node = getNodeType (Fields line ! 1)"
  using assms unfolding parseDirectoryStructure_lines
  using map_filter_lineNode_origin lineNode_Some by blast

lemma noisy_nodes:
  "List.map_filter lineNode (SplitLines noisyListing)
     = [\<lparr>Path = ''/home/devlab/x'', Type = ''file'', IsRoot = False, Children = [],
          Content = [], IsOpen = False, IsSaved = True\<rparr>]"
  by code_simp

lemma parseDirectoryStructure_noisy:
  "fst (parseDirectoryStructure rangeOrder noisyListing)
     = [\<lparr>Path = ''/home/devlab/x'', Type = ''file'', IsRoot = False, Children = [],
          Content = [], IsOpen = False, IsSaved = True\<rparr>]"
  by (simp only: parseDirectoryStructure_lines noisy_nodes)

lemma outside_nodes:
  "List.map_filter lineNode (SplitLines outsideListing)
     = [\<lparr>Path = ''/home/devlabXYZ/secret'', Type = ''file'', IsRoot = False, Children = [],
          Content = [], IsOpen = False, IsSaved = True\<rparr>]"
  by code_simp

lemma outside_not_entry:
  "\<not> underRoot ''/home/devlabXYZ/secret'' \<and> \<not> entryLine ''/home/devlabXYZ/secret f''"
  by code_simp

text \<open>
  C10. The builder is total and its error result is nil on every input, and the empty
  input gives no node. It does not skip every path outside the workspace root: the guard
  of the first loop, commented \<^verbatim>\<open>Skip if not under /home/devlab\<close>, tests that the path
  starts with the characters \<^verbatim>\<open>/home/devlab\<close>, so the listing with the one line
  \<^verbatim>\<open>/home/devlabXYZ/secret f\<close>, whose path is neither the root nor below it, gives a
  node for that path, whatever the order of the map's keys.
\<close>

theorem parseDirectoryStructure_outside_root:
  "snd (parseDirectoryStructure rangeOrder output) = None
   \<and> parseDirectoryStructure rangeOrder [] = ([], None)
   \<and> parseDirectoryStructure rangeOrder outsideListing
       = ([\<lparr>Path = ''/home/devlabXYZ/secret'', Type = ''file'', IsRoot = False, Children = [],
            Content = [], IsOpen = False, IsSaved = True\<rparr>], None)
   \<and> \<not> underRoot ''/home/devlabXYZ/secret''
   \<and> \<not> entryLine ''/home/devlabXYZ/secret f''"
proof -
  have "fst (parseDirectoryStructure rangeOrder outsideListing)
       = [\<lparr>Path = ''/home/devlabXYZ/secret'', Type = ''file'', IsRoot = False, Children = [],
            Content = [], IsOpen = False, IsSaved = True\<rparr>]"
    by (simp only: parseDirectoryStructure_lines outside_nodes)
  then have "parseDirectoryStructure rangeOrder outsideListing
       = ([\<lparr>Path = ''/home/devlabXYZ/secret'', Type = ''file'', IsRoot = False, Children = [],
            Content = [], IsOpen = False, IsSaved = True\<rparr>], None)"
    using parseDirectoryStructure_error_nil [of rangeOrder outsideListing]
    by (simp add: prod_eq_iff)
  then show ?thesis
    using parseDirectoryStructure_error_nil parseDirectoryStructure_empty outside_not_entry
    by simp
qed

subsection \<open>The store\<close>

lemma findDoc_Some_ID: "findDoc sid ds = Some sc \<Longrightarrow> ScenarioID sc = sid"
  by (induction ds) (auto split: if_splits)

lemma findDoc_updateDoc:
  "findDoc sid ds = Some old \<Longrightarrow> ScenarioID s = sid \<Longrightarrow>
     findDoc sid (updateDoc s ds) = Some (setFields s old)"
  by (induction ds) (auto simp: setFields_def split: if_splits)


lemma GetScenario_Inr:
  "GetScenario ctx db sid = Inr sc \<longleftrightarrow>
     (\<exists>d. db = Some d \<and> sid \<noteq> [] \<and> \<not> failing d (FindOne sid) \<and> findDoc sid (docs d) = Some sc)"
  by (auto simp: GetScenario_def mongo_FindOne_def split: option.splits if_splits sum.splits)

lemma UpdateScenario_accepted:
  assumes "ScenarioID sc = sid" "sid \<noteq> []" "\<not> failing d (UpdateOne sid)"
  shows "UpdateScenario now ctx (Some d) (Some sc)
           = (None, Some (d\<lparr>docs := updateDoc (sc\<lparr>UpdatedAt := now\<rparr>) (docs d)\<rparr>))"
  using assms by (simp add: UpdateScenario_def mongo_UpdateOne_def)

lemma UpdateScenario_refused:
  assumes "ScenarioID sc = sid" "sid \<noteq> []" "failing d (UpdateOne sid)"
  shows "UpdateScenario now ctx (Some d) (Some sc)
           = (Some (Errorf ''failed to update scenario: %w'' Mongo_DriverError), Some d)"
  using assms by (simp add: UpdateScenario_def mongo_UpdateOne_def)



subsection \<open>Status reconciliation\<close>


lemma worldA_found: "GetScenario Background (mongo worldA) ''scn-1'' = Inr scenarioA"
  by code_simp




subsection \<open>\<^verbatim>\<open>RealClient\<close> on the engine\<close>

lemma Client_RealClient [simp]:
  "Client_StartScenarioContainer RealClient = RealClient_StartScenarioContainer"
  "Client_GetContainerStatus RealClient = RealClient_GetContainerStatus"
  "Client_GetTerminalURL RealClient = RealClient_GetTerminalURL"
  "Client_StopContainer RealClient = RealClient_StopContainer"
  "Client_ContainerExists RealClient = RealClient_ContainerExists"
  "Client_ExecuteCommand RealClient = RealClient_ExecuteCommand"
  "Client_ListContainers RealClient = RealClient_ListContainers"
  "Client_RemoveContainer RealClient = RealClient_RemoveContainer"
  by (simp_all add: RealClient_def)

lemma RealClient_ContainerExists_state [simp]:
  "snd (RealClient_ContainerExists ctx containerID e) = e"
  by (simp add: RealClient_ContainerExists_def split: sum.splits)

lemma RealClient_GetTerminalURL_state [simp]:
  "snd (RealClient_GetTerminalURL ctx containerID e) = e"
  by (simp add: RealClient_GetTerminalURL_def Let_def split: sum.splits option.splits list.splits)

lemma RealClient_GetContainerStatus_state [simp]:
  "snd (RealClient_GetContainerStatus ctx containerID e) = e"
  by (simp add: RealClient_GetContainerStatus_def split: sum.splits)

lemma RealClient_ContainerExists_answer:
  assumes "ctx \<noteq> NilContext" "containerID \<noteq> []" "\<not> refused e NewClientWithOpts"
    "\<not> refused e (ContainerInspect containerID)"
  shows "RealClient_ContainerExists ctx containerID e
           = (Inr (map_of (containers e) containerID \<noteq> None), e)"
  using assms
  by (auto simp: RealClient_ContainerExists_def cli_ContainerInspect_def IsErrNotFound_def
      split: option.splits)

lemma RealClient_ContainerExists_True:
  "RealClient_ContainerExists ctx containerID e = (Inr True, e') \<Longrightarrow>
     e' = e \<and> ctx \<noteq> NilContext \<and> containerID \<noteq> [] \<and> \<not> refused e NewClientWithOpts
     \<and> \<not> refused e (ContainerInspect containerID) \<and> map_of (containers e) containerID \<noteq> None"
  by (auto simp: RealClient_ContainerExists_def cli_ContainerInspect_def IsErrNotFound_def
      split: option.splits if_splits)

lemma RealClient_GetTerminalURL_answer:
  assumes "ctx \<noteq> NilContext" "containerID \<noteq> []" "\<not> refused e NewClientWithOpts"
    "\<not> refused e (ContainerInspect containerID)" "map_of (containers e) containerID = Some c"
  shows "RealClient_GetTerminalURL ctx containerID e =
     (if State_Status c \<noteq> ''running''
      then Inl (Errorf ''%w: container status is %s'' Docker_ErrContainerNotRunning)
      else case shellPortBinding c of
             Some binding \<Rightarrow>
               Inr (''http://'' @ (if HostIP binding = [] then ''localhost'' else HostIP binding)
                     @ '':'' @ HostPort binding)
           | None \<Rightarrow>
               (case NetworkSettings_Ports c of
                  Some (Some ports) \<Rightarrow> Inl (New ''port 3000 not mapped for container %s'')
                | _ \<Rightarrow> Inl (New ''no port mappings found for container %s'')), e)"
  using assms
  by (auto simp: RealClient_GetTerminalURL_def cli_ContainerInspect_def shellPortBinding_def Let_def
      split: option.splits list.splits)

lemma RealClient_StopContainer_healthy:
  assumes "engineHealthy e" "ctx \<noteq> NilContext" "containerID \<noteq> []"
  shows "stopAnswerOk (fst (RealClient_StopContainer ctx containerID e))
         \<and> refused (snd (RealClient_StopContainer ctx containerID e)) = refused e
         \<and> map_of (containers (snd (RealClient_StopContainer ctx containerID e)))
             = (map_of (containers e))(containerID := None)"
proof (cases "map_of (containers e) containerID")
  case None
  then have "(map_of (containers e))(containerID := None) = map_of (containers e)"
    by (simp add: fun_upd_idem_iff)
  with None assms show ?thesis
    by (simp add: RealClient_StopContainer_def engineHealthy_def cli_ContainerInspect_def
          IsErrNotFound_def stopAnswerOk_def)
next
  case (Some c)
  with assms show ?thesis
    by (auto simp: RealClient_StopContainer_def engineHealthy_def cli_ContainerInspect_def
          cli_ContainerRemove_def cli_ContainerStop_def IsErrNotFound_def stopAnswerOk_def
          AList.update_conv' AList.delete_conv')
qed

subsection \<open>The terminal address\<close>

text \<open>
  C7, as the code has it. For a scenario record that is found: \<^verbatim>\<open>GetTerminalURL\<close> fails
  with the kind \<^verbatim>\<open>ErrScenarioNotRunning\<close> when the stored status is not \<^verbatim>\<open>running\<close>, and
  when the engine answers that the container does not exist; when the container is up
  without a binding of port 3000 it fails with the error \<^verbatim>\<open>failed to get terminal URL\<close>
  around the runtime's error, which is not of that kind; and it returns an address only
  when the stored status is \<^verbatim>\<open>running\<close> and the container exists, is running and has a
  binding of port 3000, from which the address is made.
\<close>

theorem GetTerminalURL_outcomes:
  assumes ctx: "ctx \<noteq> NilContext"
    and found: "GetScenario ctx (mongo w) scenarioID = Inr scenario"
  shows
    "(Status scenario \<noteq> ''running'' \<longrightarrow>
        (\<exists>err. fst (GetTerminalURL RealClient ctx scenarioID w) = Inl err
               \<and> errors_Is err Scenario_ErrScenarioNotRunning))
     \<and> (Status scenario = ''running'' \<and> ContainerID scenario \<noteq> []
          \<and> \<not> refused (runtime w) NewClientWithOpts
          \<and> \<not> refused (runtime w) (ContainerInspect (ContainerID scenario)) \<longrightarrow>
          (case map_of (containers (runtime w)) (ContainerID scenario) of
             None \<Rightarrow>
               (\<exists>err. fst (GetTerminalURL RealClient ctx scenarioID w) = Inl err
                      \<and> errors_Is err Scenario_ErrScenarioNotRunning)
           | Some c \<Rightarrow>
               (State_Status c = ''running'' \<and> shellPortBinding c = None \<longrightarrow>
                  (\<exists>err. fst (GetTerminalURL RealClient ctx scenarioID w)
                            = Inl (Errorf ''failed to get terminal URL: %w'' err)
                         \<and> \<not> errors_Is (Errorf ''failed to get terminal URL: %w'' err)
                                Scenario_ErrScenarioNotRunning))))
     \<and> (\<forall>url. fst (GetTerminalURL RealClient ctx scenarioID w) = Inr url \<longrightarrow>
           Status scenario = ''running''
           \<and> (\<exists>c binding. map_of (containers (runtime w)) (ContainerID scenario) = Some c
                  \<and> State_Status c = ''running'' \<and> shellPortBinding c = Some binding
                  \<and> url = ''http://'' @ (if HostIP binding = [] then ''localhost''
                                          else HostIP binding) @ '':'' @ HostPort binding))"
proof -
  have sid: "scenarioID \<noteq> []" using found by (auto simp: GetScenario_Inr)
  have A: "\<exists>err. fst (GetTerminalURL RealClient ctx scenarioID w) = Inl err
               \<and> errors_Is err Scenario_ErrScenarioNotRunning"
    if "Status scenario \<noteq> ''running''"
    using that ctx sid by (simp add: GetTerminalURL_def found)
  have B: "case map_of (containers (runtime w)) (ContainerID scenario) of
             None \<Rightarrow>
               (\<exists>err. fst (GetTerminalURL RealClient ctx scenarioID w) = Inl err
                      \<and> errors_Is err Scenario_ErrScenarioNotRunning)
           | Some c \<Rightarrow>
               (State_Status c = ''running'' \<and> shellPortBinding c = None \<longrightarrow>
                  (\<exists>err. fst (GetTerminalURL RealClient ctx scenarioID w)
                            = Inl (Errorf ''failed to get terminal URL: %w'' err)
                         \<and> \<not> errors_Is (Errorf ''failed to get terminal URL: %w'' err)
                                Scenario_ErrScenarioNotRunning))"
    if a: "Status scenario = ''running'' \<and> ContainerID scenario \<noteq> []
          \<and> \<not> refused (runtime w) NewClientWithOpts
          \<and> \<not> refused (runtime w) (ContainerInspect (ContainerID scenario))"
  proof (cases "map_of (containers (runtime w)) (ContainerID scenario)")
    case None
    then show ?thesis
      using ctx a sid
      by (simp add: GetTerminalURL_def found RealClient_ContainerExists_answer)
  next
    case (Some c)
    then show ?thesis
      using ctx a sid
      by (auto simp: GetTerminalURL_def found RealClient_ContainerExists_answer
            RealClient_GetTerminalURL_answer split: option.splits)
  qed
  have C: "Status scenario = ''running''
           \<and> (\<exists>c binding. map_of (containers (runtime w)) (ContainerID scenario) = Some c
                  \<and> State_Status c = ''running'' \<and> shellPortBinding c = Some binding
                  \<and> url = ''http://'' @ (if HostIP binding = [] then ''localhost''
                                          else HostIP binding) @ '':'' @ HostPort binding)"
    if r: "fst (GetTerminalURL RealClient ctx scenarioID w) = Inr url" for url
  proof -
    from r ctx sid have st: "Status scenario = ''running''"
      by (auto simp: GetTerminalURL_def found split: if_splits)
    from r ctx sid st obtain e1 where
      ex: "RealClient_ContainerExists ctx (ContainerID scenario) (runtime w) = (Inr True, e1)"
      by (auto simp: GetTerminalURL_def found split: if_splits prod.splits sum.splits)
    note facts = RealClient_ContainerExists_True [OF ex]
    from facts obtain c where c: "map_of (containers (runtime w)) (ContainerID scenario) = Some c"
      by auto
    from r ctx sid st ex facts c
    have "State_Status c = ''running'' \<and> (\<exists>binding. shellPortBinding c = Some binding
                    \<and> url = ''http://'' @ (if HostIP binding = [] then ''localhost''
                                            else HostIP binding) @ '':'' @ HostPort binding)"
      by (auto simp: GetTerminalURL_def found RealClient_GetTerminalURL_answer
            split: if_splits option.splits)
    with st c show ?thesis by blast
  qed
  from A B C show ?thesis by blast
qed


lemma worldUnmapped_found:
  "GetScenario Background (mongo worldUnmapped) ''scn-1'' = Inr (scenarioA\<lparr>Status := ''running''\<rparr>)"
  by code_simp

lemma worldUnmapped_container:
  "map_of (containers (runtime worldUnmapped)) ''c1''
     = Some (containerA\<lparr>NetworkSettings_Ports := Some (Some [])\<rparr>)"
  by (simp add: worldUnmapped_def engineOf_def)

lemma worldUnmapped_facts:
  "ContainerID (scenarioA\<lparr>Status := ''running''\<rparr>) = ''c1''
   \<and> Status (scenarioA\<lparr>Status := ''running''\<rparr>) = ''running''
   \<and> \<not> refused (runtime worldUnmapped) NewClientWithOpts
   \<and> \<not> refused (runtime worldUnmapped) (ContainerInspect ''c1'')
   \<and> State_Status (containerA\<lparr>NetworkSettings_Ports := Some (Some [])\<rparr>) = ''running''
   \<and> shellPortBinding (containerA\<lparr>NetworkSettings_Ports := Some (Some [])\<rparr>) = None"
  by (simp add: worldUnmapped_def engineOf_def scenarioA_def containerA_def shellPortBinding_def)

theorem GetTerminalURL_outcomes_witness:
  "Background \<noteq> NilContext
   \<and> GetScenario Background (mongo worldUnmapped) ''scn-1'' = Inr (scenarioA\<lparr>Status := ''running''\<rparr>)
   \<and> (\<exists>err. fst (GetTerminalURL RealClient Background ''scn-1'' worldUnmapped)
               = Inl (Errorf ''failed to get terminal URL: %w'' err))"
proof -
  have c: "Background \<noteq> NilContext" by simp
  from GetTerminalURL_outcomes [OF c worldUnmapped_found]
  show ?thesis
    using worldUnmapped_found worldUnmapped_facts worldUnmapped_container by auto
qed

text \<open>
  The claim as it is written fails on the world \<open>worldUnmapped\<close>: the scenario is
  stored as \<^verbatim>\<open>running\<close>, its container exists and runs, port 3000 has no binding, and
  the error is not of the kind \<^verbatim>\<open>ErrScenarioNotRunning\<close>.
\<close>

theorem GetTerminalURL_unmapped_counterexample:
  "fst (GetTerminalURL RealClient Background ''scn-1'' worldUnmapped)
     = Inl (Errorf ''failed to get terminal URL: %w'' (New ''port 3000 not mapped for container %s''))
   \<and> \<not> errors_Is (Errorf ''failed to get terminal URL: %w''
                     (New ''port 3000 not mapped for container %s''))
          Scenario_ErrScenarioNotRunning
   \<and> map_option shellPortBinding (map_of (containers (runtime worldUnmapped)) ''c1'') = Some None
   \<and> map_option Status (findDoc ''scn-1'' (docs (storeOf [scenarioA\<lparr>Status := ''running''\<rparr>])))
       = Some ''running''"
  by code_simp

subsection \<open>Stopping a scenario\<close>

lemma StopScenario_run:
  assumes "ctx \<noteq> NilContext" "GetScenario ctx (mongo w) sid = Inr sc"
    "Client_StopContainer docker ctx (ContainerID sc) (runtime w) = (stopErr, r1)"
    "stopAnswerOk stopErr" "mongo w = Some d" "\<not> failing d (UpdateOne sid)"
  shows "StopScenario docker ctx sid w
           = (None, w\<lparr>mongo := Some (d\<lparr>docs := updateDoc (sc\<lparr>Status := ''stopped'', UpdatedAt := clock w\<rparr>)
                                                   (docs d)\<rparr>),
                       runtime := r1\<rparr>)"
proof -
  from assms(2) have sid: "sid \<noteq> []" and f: "findDoc sid (docs d) = Some sc"
    using assms(5) by (auto simp: GetScenario_Inr)
  have id: "ScenarioID sc = sid" using f by (rule findDoc_Some_ID)
  have u: "UpdateScenario (clock w) ctx (Some d) (Some (sc\<lparr>Status := ''stopped'', UpdatedAt := clock w\<rparr>))
        = (None, Some (d\<lparr>docs := updateDoc (sc\<lparr>Status := ''stopped'', UpdatedAt := clock w\<rparr>) (docs d)\<rparr>))"
    using UpdateScenario_accepted [where sc = "sc\<lparr>Status := ''stopped'', UpdatedAt := clock w\<rparr>"
        and sid = sid and d = d and now = "clock w" and ctx = ctx] id sid assms(6)
    by simp
  have g: "GetScenario ctx (Some d) sid = Inr sc" using assms(2,5) by simp
  show ?thesis
    using assms(1,3,4) sid
    by (auto simp: StopScenario_def g assms(5) u stopAnswerOk_def Let_def
          split: option.splits)
qed

lemma StopScenario_success:
  assumes "fst (StopScenario docker ctx sid w) = None"
  shows "persistedStatus (mongo (snd (StopScenario docker ctx sid w))) sid = Some ''stopped''"
proof -
  from assms have ctx: "ctx \<noteq> NilContext" and sid: "sid \<noteq> []"
    by (auto simp: StopScenario_def split: if_splits)
  from assms ctx sid obtain sc where sc: "GetScenario ctx (mongo w) sid = Inr sc"
    by (cases "GetScenario ctx (mongo w) sid") (auto simp: StopScenario_def split: if_splits)
  then obtain d where d: "mongo w = Some d" "findDoc sid (docs d) = Some sc"
    by (auto simp: GetScenario_Inr)
  have id: "ScenarioID sc = sid" using d(2) by (rule findDoc_Some_ID)
  have g: "GetScenario ctx (Some d) sid = Inr sc" using sc d(1) by simp
  obtain stopErr r1 where st: "Client_StopContainer docker ctx (ContainerID sc) (runtime w) = (stopErr, r1)"
    by (cases "Client_StopContainer docker ctx (ContainerID sc) (runtime w)") auto
  have acc: "\<not> failing d (UpdateOne sid)"
  proof
    assume "failing d (UpdateOne sid)"
    then have "UpdateScenario (clock w) ctx (Some d) (Some (sc\<lparr>Status := ''stopped'', UpdatedAt := clock w\<rparr>))
        = (Some (Errorf ''failed to update scenario: %w'' Mongo_DriverError), Some d)"
      using UpdateScenario_refused [where sc = "sc\<lparr>Status := ''stopped'', UpdatedAt := clock w\<rparr>"
        and sid = sid and d = d and now = "clock w" and ctx = ctx] id sid by simp
    with assms ctx sid show False
      by (simp add: StopScenario_def g d(1) st Let_def split: option.splits if_splits)
  qed
  have ok: "stopAnswerOk stopErr"
    using assms ctx sid
    by (auto simp: StopScenario_def g d(1) st Let_def stopAnswerOk_def
        split: option.splits if_splits)
  show ?thesis
    by (simp add: StopScenario_run [OF ctx sc st ok d(1) acc] persistedStatus_def
          findDoc_updateDoc [OF d(2)] id setFields_def)
qed


text \<open>
  C6. Stopping is idempotent. A call of \<^verbatim>\<open>StopScenario\<close> that succeeds leaves the stored
  status \<^verbatim>\<open>stopped\<close>, for any runtime. For a record that is found and a store that
  accepts the update, the call succeeds when the runtime stops the container and also
  when it answers that the container is not found. With \<^verbatim>\<open>RealClient\<close>, a store and an
  engine that refuse no call, and a record that names a container: the call succeeds,
  the container is gone, a second call succeeds as well, and the stored status is
  \<^verbatim>\<open>stopped\<close> after it.
\<close>

theorem StopScenario_idempotent:
  assumes ctx: "ctx \<noteq> NilContext"
  shows "(fst (StopScenario docker ctx scenarioID w) = None \<longrightarrow>
            persistedStatus (mongo (snd (StopScenario docker ctx scenarioID w))) scenarioID
              = Some ''stopped'')
         \<and> (GetScenario ctx (mongo w) scenarioID = Inr scenario
              \<and> updateAccepted (mongo w) scenarioID
              \<and> stopAnswerOk (fst (Client_StopContainer docker ctx (ContainerID scenario) (runtime w)))
              \<longrightarrow> fst (StopScenario docker ctx scenarioID w) = None)
         \<and> (GetScenario ctx (mongo v) scenarioID = Inr scenario' \<and> ContainerID scenario' \<noteq> []
              \<and> storeHealthy (mongo v) \<and> engineHealthy (runtime v) \<longrightarrow>
              fst (StopScenario RealClient ctx scenarioID v) = None
              \<and> fst (StopScenario RealClient ctx scenarioID
                        (snd (StopScenario RealClient ctx scenarioID v))) = None
              \<and> persistedStatus
                    (mongo (snd (StopScenario RealClient ctx scenarioID
                                   (snd (StopScenario RealClient ctx scenarioID v))))) scenarioID
                  = Some ''stopped''
              \<and> map_of (containers (runtime (snd (StopScenario RealClient ctx scenarioID v))))
                    (ContainerID scenario') = None)"
proof -
  have A: "persistedStatus (mongo (snd (StopScenario docker ctx scenarioID w))) scenarioID
              = Some ''stopped''"
    if "fst (StopScenario docker ctx scenarioID w) = None"
    using that by (rule StopScenario_success)
  have B: "fst (StopScenario docker ctx scenarioID w) = None"
    if b: "GetScenario ctx (mongo w) scenarioID = Inr scenario
              \<and> updateAccepted (mongo w) scenarioID
              \<and> stopAnswerOk (fst (Client_StopContainer docker ctx (ContainerID scenario) (runtime w)))"
  proof -
    from b obtain d where d: "mongo w = Some d" "\<not> failing d (UpdateOne scenarioID)"
      by (auto simp: updateAccepted_def split: option.splits)
    obtain stopErr r1 where
      st: "Client_StopContainer docker ctx (ContainerID scenario) (runtime w) = (stopErr, r1)"
      by (cases "Client_StopContainer docker ctx (ContainerID scenario) (runtime w)") auto
    with b have ok: "stopAnswerOk stopErr" by simp
    from b have g: "GetScenario ctx (mongo w) scenarioID = Inr scenario" by simp
    show ?thesis by (simp add: StopScenario_run [OF ctx g st ok d])
  qed
  have C: "fst (StopScenario RealClient ctx scenarioID v) = None
              \<and> fst (StopScenario RealClient ctx scenarioID
                        (snd (StopScenario RealClient ctx scenarioID v))) = None
              \<and> persistedStatus
                    (mongo (snd (StopScenario RealClient ctx scenarioID
                                   (snd (StopScenario RealClient ctx scenarioID v))))) scenarioID
                  = Some ''stopped''
              \<and> map_of (containers (runtime (snd (StopScenario RealClient ctx scenarioID v))))
                    (ContainerID scenario') = None"
    if c: "GetScenario ctx (mongo v) scenarioID = Inr scenario' \<and> ContainerID scenario' \<noteq> []
              \<and> storeHealthy (mongo v) \<and> engineHealthy (runtime v)"
  proof -
    from c obtain d where d: "mongo v = Some d" "\<forall>call. \<not> failing d call"
      by (auto simp: storeHealthy_def split: option.splits)
    from c have g: "GetScenario ctx (mongo v) scenarioID = Inr scenario'" by simp
    then have f: "findDoc scenarioID (docs d) = Some scenario'" and sid: "scenarioID \<noteq> []"
      using d(1) by (auto simp: GetScenario_Inr)
    have id: "ScenarioID scenario' = scenarioID" using f by (rule findDoc_Some_ID)
    let ?cid = "ContainerID scenario'"
    obtain stopErr e1 where st: "RealClient_StopContainer ctx ?cid (runtime v) = (stopErr, e1)"
      by (cases "RealClient_StopContainer ctx ?cid (runtime v)") auto
    from RealClient_StopContainer_healthy [of "runtime v" ctx ?cid] c ctx st
    have ok: "stopAnswerOk stopErr" and r1: "refused e1 = refused (runtime v)"
      and gone: "map_of (containers e1) ?cid = None"
      by auto
    have st': "Client_StopContainer RealClient ctx ?cid (runtime v) = (stopErr, e1)"
      using st by simp
    have acc: "\<not> failing d (UpdateOne scenarioID)" using d(2) by simp
    let ?s1 = "scenario'\<lparr>Status := ''stopped'', UpdatedAt := clock v\<rparr>"
    let ?d1 = "d\<lparr>docs := updateDoc ?s1 (docs d)\<rparr>"
    let ?v1 = "v\<lparr>mongo := Some ?d1, runtime := e1\<rparr>"
    have run1: "StopScenario RealClient ctx scenarioID v = (None, ?v1)"
      by (rule StopScenario_run [OF ctx g st' ok d(1) acc])
    have f1: "findDoc scenarioID (docs ?d1) = Some (setFields ?s1 scenario')"
      using findDoc_updateDoc [OF f, of ?s1] id by simp
    have g1: "GetScenario ctx (mongo ?v1) scenarioID = Inr (setFields ?s1 scenario')"
      using f1 sid d(2) by (simp add: GetScenario_Inr)
    have cid1: "ContainerID (setFields ?s1 scenario') = ?cid"
      by (simp add: setFields_def)
    obtain stopErr2 e2 where
      st2: "RealClient_StopContainer ctx ?cid e1 = (stopErr2, e2)"
      by (cases "RealClient_StopContainer ctx ?cid e1") auto
    have h1: "engineHealthy e1" using c r1 by (simp add: engineHealthy_def)
    from RealClient_StopContainer_healthy [OF h1 ctx, of ?cid] c st2
    have ok2: "stopAnswerOk stopErr2" by auto
    have st2': "Client_StopContainer RealClient ctx (ContainerID (setFields ?s1 scenario'))
                  (runtime ?v1) = (stopErr2, e2)"
      using st2 cid1 by simp
    have acc1: "\<not> failing ?d1 (UpdateOne scenarioID)" using d(2) by simp
    have m1: "mongo ?v1 = Some ?d1" by simp
    have second: "fst (StopScenario RealClient ctx scenarioID ?v1) = None"
      by (simp add: StopScenario_run [OF ctx g1 st2' ok2 m1 acc1])
    from StopScenario_success [OF second] run1 second gone show ?thesis by simp
  qed
  from A B C show ?thesis by blast
qed


lemma worldA_healthy: "storeHealthy (mongo worldA) \<and> engineHealthy (runtime worldA)"
  by (simp add: storeHealthy_def engineHealthy_def worldA_def storeOf_def engineOf_def)

lemma worldA_container: "ContainerID scenarioA \<noteq> []"
  by (simp add: scenarioA_def)

theorem StopScenario_idempotent_witness:
  "Background \<noteq> NilContext
   \<and> GetScenario Background (mongo worldA) ''scn-1'' = Inr scenarioA
   \<and> storeHealthy (mongo worldA) \<and> engineHealthy (runtime worldA)
   \<and> fst (StopScenario RealClient Background ''scn-1'' worldA) = None
   \<and> fst (StopScenario RealClient Background ''scn-1''
             (snd (StopScenario RealClient Background ''scn-1'' worldA))) = None
   \<and> persistedStatus
         (mongo (snd (StopScenario RealClient Background ''scn-1''
                        (snd (StopScenario RealClient Background ''scn-1'' worldA))))) ''scn-1''
       = Some ''stopped''"
proof -
  have c: "Background \<noteq> NilContext" by simp
  from StopScenario_idempotent [OF c, of RealClient "''scn-1''" worldA scenarioA worldA scenarioA]
  show ?thesis
    using worldA_found worldA_healthy worldA_container by simp
qed

subsection \<open>Starting a scenario\<close>

lemma StoreScenario_refused:
  assumes "insertRefused db (ScenarioID s)"
  shows "\<exists>err. StoreScenario ctx db (Some s) = (Some err, db)"
  using assms
  by (auto simp: StoreScenario_def insertRefused_def mongo_InsertOne_def split: option.splits)

lemma StartScenario_rollback:
  assumes ctx: "ctx \<noteq> NilContext"
    and req: "Req_UserID rq \<noteq> []" "Req_ScenarioType rq \<noteq> []"
    and start: "Client_StartScenarioContainer docker ctx (Req_ScenarioType rq) (Req_Script rq)
                  (runtime w) = (Inr (containerID, terminalPort), r1)"
    and refused: "insertRefused (mongo w) (''scn-'' @ Sprintf_d (clock w))"
  shows "\<exists>err. StartScenario docker ctx (Some rq) w
           = (Inl (Errorf ''failed to store scenario metadata: %w'' err),
              w\<lparr>runtime := snd (Client_StopContainer docker ctx containerID r1)\<rparr>)"
proof -
  let ?s = "\<lparr>ScenarioID = ''scn-'' @ Sprintf_d (clock w), UserID = Req_UserID rq,
             ScenarioType = Req_ScenarioType rq, ContainerID = containerID,
             Status = ''provisioning'', TerminalPort = terminalPort,
             CreatedAt = clock w, UpdatedAt = clock w\<rparr>"
  from StoreScenario_refused [of "mongo w" ?s ctx] refused
  obtain err where e: "StoreScenario ctx (mongo w) (Some ?s) = (Some err, mongo w)" by auto
  show ?thesis
    using ctx req e by (auto simp: StartScenario_def start Let_def)
qed

lemma RealClient_StartScenarioContainer_refused:
  "refused (snd (RealClient_StartScenarioContainer ctx scenarioType script e)) = refused e"
  by (auto simp: RealClient_StartScenarioContainer_def cli_ContainerCreate_def
        cli_ContainerStart_def cli_ContainerRemove_def cli_ContainerInspect_def Let_def
      split: sum.splits option.splits prod.splits if_splits)

lemma RealClient_StartScenarioContainer_running:
  assumes "RealClient_StartScenarioContainer ctx scenarioType script e = (Inr (newID, hostPort), e1)"
  shows "\<exists>c. map_of (containers e1) newID = Some c \<and> State_Status c = ''running''"
  using assms
  by (auto simp: RealClient_StartScenarioContainer_def cli_ContainerInspect_def Let_def
      split: sum.splits option.splits prod.splits if_splits)

lemma RealClient_StopContainer_running:
  assumes "ctx \<noteq> NilContext" "k \<noteq> []" "map_of (containers e) k = Some c"
    "State_Status c = ''running''"
  shows "(engineAccepts e [NewClientWithOpts, ContainerInspect k, ContainerStop k, ContainerRemove k]
            \<longrightarrow> map_of (containers (snd (RealClient_StopContainer ctx k e))) k = None)
         \<and> (engineAccepts e [NewClientWithOpts, ContainerInspect k, ContainerStop k]
            \<longrightarrow> map_option State_Status (map_of (containers (snd (RealClient_StopContainer ctx k e))) k)
                  \<noteq> Some ''running'')
         \<and> (\<not> engineAccepts e [NewClientWithOpts, ContainerInspect k, ContainerStop k]
            \<longrightarrow> fst (RealClient_StopContainer ctx k e) \<noteq> None
                \<and> snd (RealClient_StopContainer ctx k e) = e)"
  using assms
  by (auto simp: RealClient_StopContainer_def engineAccepts_def cli_ContainerInspect_def
        cli_ContainerRemove_def cli_ContainerStop_def IsErrNotFound_def
        AList.update_conv' AList.delete_conv')

text \<open>
  C2. When the runtime has created the container and the store then refuses the record,
  \<^verbatim>\<open>StartScenario\<close> calls \<^verbatim>\<open>StopContainer\<close> once for the container just created, on the
  state the runtime is in after the creation, drops the result of that call, and returns
  the error of the store wrapped; the store is as it was. With \<^verbatim>\<open>RealClient\<close>: when the
  engine accepts the calls that inspect, stop and remove the new container, the container
  is gone when \<^verbatim>\<open>StartScenario\<close> returns; when it accepts the calls that inspect and stop
  it, the container is not left running; and when it refuses one of these, the container
  is left running, with no record in the store.
\<close>

theorem StartScenario_rolls_back:
  assumes ctx: "ctx \<noteq> NilContext"
    and req: "Req_UserID rq \<noteq> []" "Req_ScenarioType rq \<noteq> []"
  shows "(Client_StartScenarioContainer docker ctx (Req_ScenarioType rq) (Req_Script rq)
            (runtime w) = (Inr (containerID, terminalPort), r1)
          \<and> insertRefused (mongo w) (''scn-'' @ Sprintf_d (clock w)) \<longrightarrow>
            (\<exists>err. StartScenario docker ctx (Some rq) w
               = (Inl (Errorf ''failed to store scenario metadata: %w'' err),
                  w\<lparr>runtime := snd (Client_StopContainer docker ctx containerID r1)\<rparr>)))
         \<and> (fst (RealClient_StartScenarioContainer ctx (Req_ScenarioType rq) (Req_Script rq)
                    (runtime v)) = Inr (newID, hostPort)
              \<and> newID \<noteq> []
              \<and> insertRefused (mongo v) (''scn-'' @ Sprintf_d (clock v)) \<longrightarrow>
            (\<exists>err. fst (StartScenario RealClient ctx (Some rq) v) = Inl err)
            \<and> mongo (snd (StartScenario RealClient ctx (Some rq) v)) = mongo v
            \<and> (engineAccepts (runtime v)
                  [NewClientWithOpts, ContainerInspect newID, ContainerStop newID,
                   ContainerRemove newID] \<longrightarrow>
                map_of (containers (runtime (snd (StartScenario RealClient ctx (Some rq) v)))) newID
                  = None)
            \<and> (engineAccepts (runtime v)
                  [NewClientWithOpts, ContainerInspect newID, ContainerStop newID] \<longrightarrow>
                map_option State_Status
                    (map_of (containers (runtime (snd (StartScenario RealClient ctx (Some rq) v))))
                       newID)
                  \<noteq> Some ''running'')
            \<and> (\<not> engineAccepts (runtime v)
                    [NewClientWithOpts, ContainerInspect newID, ContainerStop newID] \<longrightarrow>
                map_option State_Status
                    (map_of (containers (runtime (snd (StartScenario RealClient ctx (Some rq) v))))
                       newID)
                  = Some ''running''))"
proof -
  have A: "\<exists>err. StartScenario docker ctx (Some rq) w
               = (Inl (Errorf ''failed to store scenario metadata: %w'' err),
                  w\<lparr>runtime := snd (Client_StopContainer docker ctx containerID r1)\<rparr>)"
    if "Client_StartScenarioContainer docker ctx (Req_ScenarioType rq) (Req_Script rq)
            (runtime w) = (Inr (containerID, terminalPort), r1)
          \<and> insertRefused (mongo w) (''scn-'' @ Sprintf_d (clock w))"
    by (rule StartScenario_rollback [OF ctx req conjunct1 [OF that] conjunct2 [OF that]])
  have B: "(\<exists>err. fst (StartScenario RealClient ctx (Some rq) v) = Inl err)
            \<and> mongo (snd (StartScenario RealClient ctx (Some rq) v)) = mongo v
            \<and> (engineAccepts (runtime v)
                  [NewClientWithOpts, ContainerInspect newID, ContainerStop newID,
                   ContainerRemove newID] \<longrightarrow>
                map_of (containers (runtime (snd (StartScenario RealClient ctx (Some rq) v)))) newID
                  = None)
            \<and> (engineAccepts (runtime v)
                  [NewClientWithOpts, ContainerInspect newID, ContainerStop newID] \<longrightarrow>
                map_option State_Status
                    (map_of (containers (runtime (snd (StartScenario RealClient ctx (Some rq) v))))
                       newID)
                  \<noteq> Some ''running'')
            \<and> (\<not> engineAccepts (runtime v)
                    [NewClientWithOpts, ContainerInspect newID, ContainerStop newID] \<longrightarrow>
                map_option State_Status
                    (map_of (containers (runtime (snd (StartScenario RealClient ctx (Some rq) v))))
                       newID)
                  = Some ''running'')"
    if b: "fst (RealClient_StartScenarioContainer ctx (Req_ScenarioType rq) (Req_Script rq)
                    (runtime v)) = Inr (newID, hostPort)
              \<and> newID \<noteq> []
              \<and> insertRefused (mongo v) (''scn-'' @ Sprintf_d (clock v))"
  proof -
    let ?e1 = "snd (RealClient_StartScenarioContainer ctx (Req_ScenarioType rq) (Req_Script rq)
                      (runtime v))"
    have start: "RealClient_StartScenarioContainer ctx (Req_ScenarioType rq) (Req_Script rq)
                   (runtime v) = (Inr (newID, hostPort), ?e1)"
      using b by (simp add: prod_eq_iff)
    have start': "Client_StartScenarioContainer RealClient ctx (Req_ScenarioType rq) (Req_Script rq)
                   (runtime v) = (Inr (newID, hostPort), ?e1)"
      using start by simp
    from RealClient_StartScenarioContainer_running [OF start]
    obtain c where c: "map_of (containers ?e1) newID = Some c" "State_Status c = ''running''"
      by blast
    have acc: "engineAccepts ?e1 calls = engineAccepts (runtime v) calls" for calls
      by (simp add: engineAccepts_def RealClient_StartScenarioContainer_refused)
    from b have nid: "newID \<noteq> []" and ref: "insertRefused (mongo v) (''scn-'' @ Sprintf_d (clock v))"
      by simp_all
    from StartScenario_rollback [OF ctx req start' ref]
    obtain err where r: "StartScenario RealClient ctx (Some rq) v
           = (Inl (Errorf ''failed to store scenario metadata: %w'' err),
              v\<lparr>runtime := snd (Client_StopContainer RealClient ctx newID ?e1)\<rparr>)"
      by blast
    from RealClient_StopContainer_running [OF ctx nid c]
    show ?thesis by (auto simp: r acc c)
  qed
  from A B show ?thesis by blast
qed

lemma Sprintf_d_0: "Sprintf_d 0 = ''0''"
  by (simp add: Sprintf_d_def digits.simps)

lemma findAvailablePort_free: "\<not> busy 3001 \<Longrightarrow> findAvailablePort busy = Inr 3001"
  by (simp add: findAvailablePort_def findPortFrom.simps [of busy 3001])

lemma worldNoInsert_start:
  "fst (RealClient_StartScenarioContainer Background (Req_ScenarioType requestB)
          (Req_Script requestB) (runtime worldNoInsert)) = Inr (''new-0'', 3001)"
  by (simp add: RealClient_StartScenarioContainer_def requestB_def worldNoInsert_def engineOf_def
        findAvailablePort_free cli_ContainerCreate_def cli_ContainerStart_def
        cli_ContainerInspect_def selectImage_def Let_def Sprintf_d_0)

lemma worldNoInsert_refused:
  "insertRefused (mongo worldNoInsert) (''scn-'' @ Sprintf_d (clock worldNoInsert))"
  by (simp add: insertRefused_def worldNoInsert_def)

lemma worldNoInsert_accepts:
  "engineAccepts (runtime worldNoInsert)
     [NewClientWithOpts, ContainerInspect ''new-0'', ContainerStop ''new-0'',
      ContainerRemove ''new-0'']"
  by (simp add: engineAccepts_def worldNoInsert_def engineOf_def)

lemma worldNoRollback_start:
  "RealClient_StartScenarioContainer Background ''python'' ''echo hi'' (runtime worldNoRollback)
     = (Inr (''new-0'', 3001),
        (runtime worldNoRollback)
          \<lparr>containers :=
             [(''c1'', containerA),
              (''new-0'',
               \<lparr>Image = ''devlab-python:latest'', Names = [], State_Status = ''running'',
                Summary_Status = ''Created'',
                NetworkSettings_Ports =
                  Some (Some [(''3000/tcp'', [\<lparr>HostIP = ''0.0.0.0'', HostPort = ''3001''\<rparr>])]),
                HostConfig_PortBindings =
                  [(''3000/tcp'', [\<lparr>HostIP = ''0.0.0.0'', HostPort = ''3001''\<rparr>])]\<rparr>)],
           created := 1\<rparr>)"
  by (simp add: RealClient_StartScenarioContainer_def worldNoRollback_def worldNoInsert_def
        engineOf_def findAvailablePort_free cli_ContainerCreate_def cli_ContainerStart_def
        cli_ContainerInspect_def selectImage_def Let_def Sprintf_d_0 Sprintf_d_def digits.simps)

lemma worldNoRollback_facts:
  "fst (RealClient_StartScenarioContainer Background (Req_ScenarioType requestB)
          (Req_Script requestB) (runtime worldNoRollback)) = Inr (''new-0'', 3001)
   \<and> insertRefused (mongo worldNoRollback) (''scn-'' @ Sprintf_d (clock worldNoRollback))
   \<and> \<not> engineAccepts (runtime worldNoRollback)
          [NewClientWithOpts, ContainerInspect ''new-0'', ContainerStop ''new-0'']"
  by (simp add: requestB_def worldNoRollback_start)
     (simp add: insertRefused_def engineAccepts_def worldNoRollback_def worldNoInsert_def)

theorem StartScenario_rolls_back_witness:
  "Background \<noteq> NilContext \<and> Req_UserID requestB \<noteq> [] \<and> Req_ScenarioType requestB \<noteq> []
   \<and> fst (RealClient_StartScenarioContainer Background (Req_ScenarioType requestB)
            (Req_Script requestB) (runtime worldNoInsert)) = Inr (''new-0'', 3001)
   \<and> insertRefused (mongo worldNoInsert) (''scn-'' @ Sprintf_d (clock worldNoInsert))
   \<and> engineAccepts (runtime worldNoInsert)
        [NewClientWithOpts, ContainerInspect ''new-0'', ContainerStop ''new-0'',
         ContainerRemove ''new-0'']
   \<and> (\<exists>err. fst (StartScenario RealClient Background (Some requestB) worldNoInsert) = Inl err)
   \<and> mongo (snd (StartScenario RealClient Background (Some requestB) worldNoInsert))
       = mongo worldNoInsert
   \<and> map_of (containers (runtime (snd (StartScenario RealClient Background (Some requestB)
                                          worldNoInsert)))) ''new-0'' = None
   \<and> fst (RealClient_StartScenarioContainer Background (Req_ScenarioType requestB)
            (Req_Script requestB) (runtime worldNoRollback)) = Inr (''new-0'', 3001)
   \<and> insertRefused (mongo worldNoRollback) (''scn-'' @ Sprintf_d (clock worldNoRollback))
   \<and> \<not> engineAccepts (runtime worldNoRollback)
          [NewClientWithOpts, ContainerInspect ''new-0'', ContainerStop ''new-0'']
   \<and> map_option State_Status
         (map_of (containers (runtime (snd (StartScenario RealClient Background (Some requestB)
                                              worldNoRollback)))) ''new-0'')
       = Some ''running''"
proof -
  have c: "Background \<noteq> NilContext" by simp
  have u: "Req_UserID requestB \<noteq> []" and t: "Req_ScenarioType requestB \<noteq> []"
    by (simp_all add: requestB_def)
  have a: "(\<exists>err. fst (StartScenario RealClient Background (Some requestB) worldNoInsert) = Inl err)
     \<and> mongo (snd (StartScenario RealClient Background (Some requestB) worldNoInsert))
         = mongo worldNoInsert
     \<and> map_of (containers (runtime (snd (StartScenario RealClient Background (Some requestB)
                                            worldNoInsert)))) ''new-0'' = None"
    using StartScenario_rolls_back [OF c u t, of RealClient worldNoInsert "''new-0''" 3001
      "snd (RealClient_StartScenarioContainer Background (Req_ScenarioType requestB)
              (Req_Script requestB) (runtime worldNoInsert))" worldNoInsert "''new-0''" 3001]
      worldNoInsert_start worldNoInsert_refused worldNoInsert_accepts
    by simp
  have b: "map_option State_Status
         (map_of (containers (runtime (snd (StartScenario RealClient Background (Some requestB)
                                              worldNoRollback)))) ''new-0'')
       = Some ''running''"
    using StartScenario_rolls_back [OF c u t, of RealClient worldNoRollback "''new-0''" 3001
      "snd (RealClient_StartScenarioContainer Background (Req_ScenarioType requestB)
              (Req_Script requestB) (runtime worldNoRollback))" worldNoRollback "''new-0''" 3001]
      worldNoRollback_facts
    by simp
  from a b show ?thesis
    using c u t worldNoInsert_start worldNoInsert_refused worldNoInsert_accepts
      worldNoRollback_facts
    by simp
qed

text \<open>
  The claim as it is written fails when the engine refuses to stop the new container:
  \<^verbatim>\<open>StartScenario\<close> returns the error of the store, the store holds the one record it held
  (of container \<^verbatim>\<open>c1\<close>), and the container \<^verbatim>\<open>new-0\<close>, which did not exist before the call,
  is left running.
\<close>

theorem StartScenario_leak_counterexample:
  "fst (StartScenario RealClient Background (Some requestB) worldNoRollback)
     = Inl (Errorf ''failed to store scenario metadata: %w''
              (Errorf ''failed to store scenario: %w'' Mongo_DriverError))
   \<and> map_option docs (mongo (snd (StartScenario RealClient Background (Some requestB) worldNoRollback)))
       = Some [scenarioA]
   \<and> ContainerID scenarioA = ''c1''
   \<and> map_of (containers (runtime worldNoRollback)) ''new-0'' = None
   \<and> map_option State_Status
        (map_of (containers (runtime (snd (StartScenario RealClient Background (Some requestB)
                                             worldNoRollback)))) ''new-0'')
       = Some ''running''"
proof -
  have m: "mongo worldNoRollback
             = Some \<lparr>docs = [scenarioA],
                      failing = (\<lambda>call. case call of InsertOne scenarioID \<Rightarrow> True | _ \<Rightarrow> False)\<rparr>"
    and r: "refused (runtime worldNoRollback) = (\<lambda>call. call = ContainerStop ''new-0'')"
    and cs: "containers (runtime worldNoRollback) = [(''c1'', containerA)]"
    by (simp_all add: worldNoRollback_def worldNoInsert_def engineOf_def)
  have stop: "RealClient_StopContainer Background ''new-0''
                ((runtime worldNoRollback)\<lparr>containers := cs', created := n\<rparr>)
              = (Some (Errorf ''failed to stop container: %w'' Engine_Error),
                 (runtime worldNoRollback)\<lparr>containers := cs', created := n\<rparr>)"
    if "map_option State_Status (map_of cs' ''new-0'') = Some ''running''" for cs' n
    using that
    by (auto simp: RealClient_StopContainer_def cli_ContainerInspect_def cli_ContainerStop_def r
        split: option.splits)
  show ?thesis
    by (simp add: StartScenario_def requestB_def worldNoRollback_start StoreScenario_def
          mongo_InsertOne_def m stop cs Let_def)
       (simp add: scenarioA_def)
qed

subsection \<open>The expired-scenario sweep\<close>



lemma cleanupScenario_runtime:
  "runtime (snd (cleanupScenario docker ctx s w)) =
     (if ContainerID s \<noteq> [] then
        (case Client_ContainerExists docker ctx (ContainerID s) (runtime w) of
           (Inl err, r1) \<Rightarrow> r1
         | (Inr containerExists, r1) \<Rightarrow>
             if containerExists then
               (let r2 =
                  (case Client_GetContainerStatus docker ctx (ContainerID s) r1 of
                     (Inl err, r) \<Rightarrow> r
                   | (Inr status, r) \<Rightarrow>
                       if status = ''running''
                       then snd (Client_StopContainer docker ctx (ContainerID s) r)
                       else r)
                in snd (Client_RemoveContainer docker ctx (ContainerID s) r2))
             else r1)
      else runtime w)"
  by (simp add: cleanupScenario_def Let_def split: prod.splits option.splits)






lemma shrinks_refl [simp]: "shrinks e e"
  by (auto simp: shrinks_def split: option.splits)

lemma shrinks_trans: "shrinks e1 e2 \<Longrightarrow> shrinks e2 e3 \<Longrightarrow> shrinks e1 e3"
  unfolding shrinks_def
  apply (intro conjI allI)
   apply simp
  subgoal for k
    apply (erule conjE)+
    apply (drule_tac x = k in spec)+
    apply (auto split: option.splits)
    done
  done

lemma frame_refl [simp]: "frame k e e"
  by (simp add: frame_def)

lemma frame_trans: "frame k e1 e2 \<Longrightarrow> frame k e2 e3 \<Longrightarrow> frame k e1 e3"
  by (simp add: frame_def)

lemma cli_ContainerStop_shrinks:
  "shrinks e (snd (cli_ContainerStop e k)) \<and> frame k e (snd (cli_ContainerStop e k))"
  by (auto simp: cli_ContainerStop_def shrinks_def frame_def AList.update_conv'
      split: option.splits)

lemma cli_ContainerRemove_shrinks:
  "shrinks e (snd (cli_ContainerRemove e k)) \<and> frame k e (snd (cli_ContainerRemove e k))"
  by (auto simp: cli_ContainerRemove_def shrinks_def frame_def AList.delete_conv'
      split: option.splits)

lemma RealClient_StopContainer_shrinks:
  "shrinks e (snd (RealClient_StopContainer ctx k e))
   \<and> frame k e (snd (RealClient_StopContainer ctx k e))"
proof -
  have s: "shrinks e (snd (cli_ContainerRemove (snd (cli_ContainerStop e k)) k))"
    using shrinks_trans cli_ContainerStop_shrinks cli_ContainerRemove_shrinks by blast
  have f: "frame k e (snd (cli_ContainerRemove (snd (cli_ContainerStop e k)) k))"
    using frame_trans cli_ContainerStop_shrinks cli_ContainerRemove_shrinks by blast
  show ?thesis
    using s f cli_ContainerStop_shrinks [of e k] cli_ContainerRemove_shrinks [of e k]
    by (auto simp: RealClient_StopContainer_def cli_ContainerInspect_def
        split: option.splits sum.splits prod.splits)
qed

lemma RealClient_RemoveContainer_shrinks:
  "shrinks e (snd (RealClient_RemoveContainer ctx k e))
   \<and> frame k e (snd (RealClient_RemoveContainer ctx k e))"
proof -
  have s: "shrinks e (snd (cli_ContainerRemove (snd (cli_ContainerStop e k)) k))"
    using shrinks_trans cli_ContainerStop_shrinks cli_ContainerRemove_shrinks by blast
  have f: "frame k e (snd (cli_ContainerRemove (snd (cli_ContainerStop e k)) k))"
    using frame_trans cli_ContainerStop_shrinks cli_ContainerRemove_shrinks by blast
  show ?thesis
    using s f cli_ContainerStop_shrinks [of e k] cli_ContainerRemove_shrinks [of e k]
    by (auto simp: RealClient_RemoveContainer_def cli_ContainerInspect_def
        split: option.splits sum.splits prod.splits)
qed

lemma shrinks_absent:
  "shrinks e e' \<Longrightarrow> map_of (containers e) k = None \<Longrightarrow> map_of (containers e') k = None"
  unfolding shrinks_def
  apply (erule conjE)
  apply (drule_tac x = k in spec)
  apply (auto split: option.splits)
  done


lemma shrinks_refused: "shrinks e e' \<Longrightarrow> refused e' = refused e"
  by (simp add: shrinks_def)

lemma RealClient_StopContainer_removes:
  assumes "ctx \<noteq> NilContext" "k \<noteq> []" "\<not> refused e NewClientWithOpts"
    "\<not> refused e (ContainerInspect k)" "\<not> refused e (ContainerStop k)"
    "\<not> refused e (ContainerRemove k)"
  shows "map_of (containers (snd (RealClient_StopContainer ctx k e))) k = None"
proof (cases "map_of (containers e) k")
  case None
  with assms show ?thesis
    by (simp add: RealClient_StopContainer_def cli_ContainerInspect_def IsErrNotFound_def)
next
  case (Some c)
  with assms show ?thesis
    by (auto simp: RealClient_StopContainer_def cli_ContainerInspect_def
          cli_ContainerRemove_def cli_ContainerStop_def IsErrNotFound_def
          AList.update_conv' AList.delete_conv')
qed


lemma RealClient_ContainerExists_stateD:
  "RealClient_ContainerExists ctx k e = (r, e') \<Longrightarrow> e' = e"
  using RealClient_ContainerExists_state [of ctx k e] by simp

lemma RealClient_GetContainerStatus_stateD:
  "RealClient_GetContainerStatus ctx k e = (r, e') \<Longrightarrow> e' = e"
  using RealClient_GetContainerStatus_state [of ctx k e] by simp

lemma cleanupScenario_RealClient_shrinks:
  "shrinks (runtime w) (runtime (snd (cleanupScenario RealClient ctx s w)))
   \<and> frame (ContainerID s) (runtime w) (runtime (snd (cleanupScenario RealClient ctx s w)))"
proof -
  let ?k = "ContainerID s"
  have a: "shrinks (runtime w) (snd (RealClient_RemoveContainer ctx ?k (runtime w)))"
    "frame ?k (runtime w) (snd (RealClient_RemoveContainer ctx ?k (runtime w)))"
    using RealClient_RemoveContainer_shrinks by blast+
  have b: "shrinks (runtime w)
             (snd (RealClient_RemoveContainer ctx ?k (snd (RealClient_StopContainer ctx ?k (runtime w)))))"
    using RealClient_RemoveContainer_shrinks RealClient_StopContainer_shrinks shrinks_trans by blast
  have c: "frame ?k (runtime w)
             (snd (RealClient_RemoveContainer ctx ?k (snd (RealClient_StopContainer ctx ?k (runtime w)))))"
    using RealClient_RemoveContainer_shrinks RealClient_StopContainer_shrinks frame_trans by blast
  show ?thesis
    using a b c
    by (auto simp: cleanupScenario_runtime Let_def split: prod.splits sum.splits
        dest!: RealClient_ContainerExists_stateD RealClient_GetContainerStatus_stateD)
qed



lemma cleanupAll_RealClient_shrinks:
  "shrinks (runtime w) (runtime (cleanupAll RealClient ctx ss w))"
proof (induction ss arbitrary: w)
  case Nil
  show ?case by simp
next
  case (Cons s ss)
  from shrinks_trans [OF conjunct1 [OF cleanupScenario_RealClient_shrinks] Cons.IH]
  show ?case by simp
qed














subsection \<open>The orphan sweep\<close>

lemma collectContainerIDs_lookup:
  "collectContainerIDs ss m k
     = (if k \<noteq> [] \<and> k \<in> ContainerID ` set ss then Some True else m k)"
  by (induction ss arbitrary: m) auto

lemma isScenarioContainer_referenced:
  "isScenarioContainer k
     (collectContainerIDs (filter (\<lambda>s. ContainerID s \<noteq> []) (docs d)) Map.empty)
   = referenced d k"
  by (auto simp: isScenarioContainer_def collectContainerIDs_lookup referenced_def)

lemma removeOrphans_RealClient_shrinks:
  "shrinks e (snd (removeOrphans RealClient ctx m cs n e))"
proof (induction cs arbitrary: n e)
  case Nil
  show ?case by simp
next
  case (Cons c cs)
  let ?k = "Info_ID c"
  let ?e1 = "snd (RealClient_StopContainer ctx ?k e)"
  let ?e2 = "snd (RealClient_RemoveContainer ctx ?k ?e1)"
  have s1: "shrinks e ?e1" using RealClient_StopContainer_shrinks by blast
  have s2: "shrinks e ?e2"
    using s1 RealClient_RemoveContainer_shrinks shrinks_trans by blast
  show ?case
    using Cons.IH shrinks_trans [OF s1] shrinks_trans [OF s2]
    by (auto split: prod.splits option.splits)
qed

lemma removeOrphans_untouched:
  assumes "isScenarioContainer k m"
  shows "map_of (containers (snd (removeOrphans RealClient ctx m cs n e))) k
           = map_of (containers e) k"
  using assms
proof (induction cs arbitrary: n e)
  case Nil
  show ?case by simp
next
  case (Cons c cs)
  let ?j = "Info_ID c"
  let ?e1 = "snd (RealClient_StopContainer ctx ?j e)"
  let ?e2 = "snd (RealClient_RemoveContainer ctx ?j ?e1)"
  show ?case
  proof (cases "isScenarioContainer ?j m")
    case True
    then show ?thesis using Cons by simp
  next
    case False
    with Cons.prems have ne: "k \<noteq> ?j" by auto
    have f1: "map_of (containers ?e1) k = map_of (containers e) k"
      using RealClient_StopContainer_shrinks [of e ctx ?j] ne by (simp add: frame_def)
    have f2: "map_of (containers ?e2) k = map_of (containers e) k"
      using RealClient_RemoveContainer_shrinks [of ?e1 ctx ?j] ne f1 by (simp add: frame_def)
    show ?thesis
      using False Cons.IH [OF Cons.prems] f1 f2
      by (auto split: prod.splits option.splits)
  qed
qed


lemma removeOrphans_removes:
  assumes "ctx \<noteq> NilContext" "k \<noteq> []" "\<not> isScenarioContainer k m"
    "\<not> refused e NewClientWithOpts" "\<not> refused e (ContainerInspect k)"
    "\<not> refused e (ContainerStop k)" "\<not> refused e (ContainerRemove k)"
    "map_of (containers e) k = None \<or> k \<in> Info_ID ` set cs"
  shows "map_of (containers (snd (removeOrphans RealClient ctx m cs n e))) k = None"
  using assms
proof (induction cs arbitrary: n e)
  case Nil
  then show ?case by simp
next
  case (Cons c cs)
  let ?j = "Info_ID c"
  let ?e1 = "snd (RealClient_StopContainer ctx ?j e)"
  let ?e2 = "snd (RealClient_RemoveContainer ctx ?j ?e1)"
  show ?case
  proof (cases "isScenarioContainer ?j m")
    case True
    with Cons.prems(3) have "k \<noteq> ?j" by auto
    with Cons.prems(8) have "map_of (containers e) k = None \<or> k \<in> Info_ID ` set cs" by auto
    from Cons.IH [OF Cons.prems(1-7) this] True show ?thesis by simp
  next
    case False
    have s1: "shrinks e ?e1" using RealClient_StopContainer_shrinks by blast
    have s2: "shrinks e ?e2"
      using s1 RealClient_RemoveContainer_shrinks shrinks_trans by blast
    have pre1: "map_of (containers ?e1) k = None \<or> k \<in> Info_ID ` set cs"
    proof (cases "k = ?j")
      case True
      with RealClient_StopContainer_removes [OF Cons.prems(1,2,4-7)] show ?thesis by simp
    next
      case ne: False
      show ?thesis
      proof (cases "map_of (containers e) k = None")
        case True
        with shrinks_absent [OF s1] show ?thesis by simp
      next
        case no: False
        with Cons.prems(8) ne show ?thesis by auto
      qed
    qed
    have pre2: "map_of (containers ?e2) k = None \<or> k \<in> Info_ID ` set cs"
      using pre1 shrinks_absent [of ?e1 ?e2 k] RealClient_RemoveContainer_shrinks [of ?e1 ctx ?j]
      by blast
    have r1: "refused ?e1 = refused e" using s1 by (rule shrinks_refused)
    have r2: "refused ?e2 = refused e" using s2 by (rule shrinks_refused)
    have ih1: "map_of (containers (snd (removeOrphans RealClient ctx m cs n' ?e1))) k = None" for n'
      using Cons.IH [OF Cons.prems(1-3) _ _ _ _ pre1, of n'] Cons.prems(4-7) r1 by simp
    have ih2: "map_of (containers (snd (removeOrphans RealClient ctx m cs n' ?e2))) k = None" for n'
      using Cons.IH [OF Cons.prems(1-3) _ _ _ _ pre2, of n'] Cons.prems(4-7) r2 by simp
    show ?thesis
      using False ih1 ih2 by (auto split: prod.splits option.splits)
  qed
qed

lemma RealClient_ListContainers_answer:
  assumes "ctx \<noteq> NilContext" "\<not> refused e NewClientWithOpts" "\<not> refused e ContainerList"
  shows "RealClient_ListContainers ctx e = (Inr (map containerInfoOf (containers e)), e)"
  using assms by (simp add: RealClient_ListContainers_def cli_ContainerList_def)

lemma Info_ID_containerInfoOf: "Info_ID ` set (map containerInfoOf cs) = fst ` set cs"
  by (induction cs) (auto simp: containerInfoOf_def)

text \<open>
  C4. In an orphan sweep with \<^verbatim>\<open>RealClient\<close> in which the engine lists its containers
  and the store answers the query of the container IDs, the sweep returns no error and
  leaves the store as it is; a listed container whose ID is the non-empty
  \<^verbatim>\<open>container_id\<close> of a stored record is left as it was; and a listed container
  whose ID is referenced by no record is gone from the engine at the end of the sweep
  whenever the engine accepts the calls that inspect, stop and remove this container,
  whatever the engine refuses for the other containers: the sweep goes on past the
  failures of single containers.
\<close>

theorem CleanupOrphanedContainers_sweeps:
  assumes ctx: "ctx \<noteq> NilContext"
    and store: "mongo w = Some d" and query: "\<not> failing d FindContainerIDs"
    and client: "\<not> refused (runtime w) NewClientWithOpts"
    and list: "\<not> refused (runtime w) ContainerList"
    and listed: "k \<in> fst ` set (containers (runtime w))"
  shows "fst (CleanupOrphanedContainers RealClient ctx w) = None
         \<and> mongo (snd (CleanupOrphanedContainers RealClient ctx w)) = mongo w
         \<and> (referenced d k \<longrightarrow>
               map_of (containers (runtime (snd (CleanupOrphanedContainers RealClient ctx w)))) k
                 = map_of (containers (runtime w)) k)
         \<and> (\<not> referenced d k \<and> k \<noteq> [] \<and> \<not> refused (runtime w) (ContainerInspect k)
               \<and> \<not> refused (runtime w) (ContainerStop k)
               \<and> \<not> refused (runtime w) (ContainerRemove k) \<longrightarrow>
               map_of (containers (runtime (snd (CleanupOrphanedContainers RealClient ctx w)))) k
                 = None)"
proof -
  let ?m = "collectContainerIDs (filter (\<lambda>s. ContainerID s \<noteq> []) (docs d)) Map.empty"
  let ?cs = "map containerInfoOf (containers (runtime w))"
  have run: "CleanupOrphanedContainers RealClient ctx w
               = (None, w\<lparr>runtime := snd (removeOrphans RealClient ctx ?m ?cs 0 (runtime w))\<rparr>)"
    using store query
    by (simp add: CleanupOrphanedContainers_def getScenarioContainerIDs_def
          RealClient_ListContainers_answer [OF ctx client list])
  have A: "map_of (containers (snd (removeOrphans RealClient ctx ?m ?cs 0 (runtime w)))) k
             = map_of (containers (runtime w)) k"
    if "referenced d k"
    using that by (simp add: removeOrphans_untouched isScenarioContainer_referenced)
  have B: "map_of (containers (snd (removeOrphans RealClient ctx ?m ?cs 0 (runtime w)))) k = None"
    if b: "\<not> referenced d k \<and> k \<noteq> [] \<and> \<not> refused (runtime w) (ContainerInspect k)
               \<and> \<not> refused (runtime w) (ContainerStop k)
               \<and> \<not> refused (runtime w) (ContainerRemove k)"
  proof -
    have in_list: "k \<in> Info_ID ` set ?cs" using listed by (simp only: Info_ID_containerInfoOf)
    have nm: "\<not> isScenarioContainer k ?m" using b by (simp add: isScenarioContainer_referenced)
    from b have k: "k \<noteq> []" and i: "\<not> refused (runtime w) (ContainerInspect k)"
      and s: "\<not> refused (runtime w) (ContainerStop k)"
      and r: "\<not> refused (runtime w) (ContainerRemove k)" by simp_all
    show ?thesis
      by (rule removeOrphans_removes [OF ctx k nm client i s r]) (rule disjI2, rule in_list)
  qed
  from A B show ?thesis by (simp add: run store)
qed


lemma worldOrphans_facts:
  "mongo worldOrphans = Some (storeOf [scenarioA])
   \<and> \<not> failing (storeOf [scenarioA]) FindContainerIDs
   \<and> \<not> refused (runtime worldOrphans) NewClientWithOpts
   \<and> \<not> refused (runtime worldOrphans) ContainerList
   \<and> ''c9'' \<in> fst ` set (containers (runtime worldOrphans))
   \<and> ''c1'' \<in> fst ` set (containers (runtime worldOrphans))
   \<and> referenced (storeOf [scenarioA]) ''c1'' \<and> \<not> referenced (storeOf [scenarioA]) ''c9''
   \<and> \<not> refused (runtime worldOrphans) (ContainerInspect ''c9'')
   \<and> \<not> refused (runtime worldOrphans) (ContainerStop ''c9'')
   \<and> \<not> refused (runtime worldOrphans) (ContainerRemove ''c9'')
   \<and> refused (runtime worldOrphans) (ContainerStop ''c8'')
   \<and> map_of (containers (runtime worldOrphans)) ''c1'' = Some containerA"
  by (simp add: worldOrphans_def storeOf_def engineOf_def referenced_def scenarioA_def)

theorem CleanupOrphanedContainers_sweeps_witness:
  "Background \<noteq> NilContext
   \<and> mongo worldOrphans = Some (storeOf [scenarioA])
   \<and> \<not> failing (storeOf [scenarioA]) FindContainerIDs
   \<and> \<not> refused (runtime worldOrphans) NewClientWithOpts
   \<and> \<not> refused (runtime worldOrphans) ContainerList
   \<and> ''c9'' \<in> fst ` set (containers (runtime worldOrphans))
   \<and> refused (runtime worldOrphans) (ContainerStop ''c8'')
   \<and> fst (CleanupOrphanedContainers RealClient Background worldOrphans) = None
   \<and> map_of (containers (runtime (snd (CleanupOrphanedContainers RealClient Background
                                          worldOrphans)))) ''c9'' = None
   \<and> map_of (containers (runtime (snd (CleanupOrphanedContainers RealClient Background
                                          worldOrphans)))) ''c1'' = Some containerA"
proof -
  have c: "Background \<noteq> NilContext" by simp
  have m: "mongo worldOrphans = Some (storeOf [scenarioA])"
    and q: "\<not> failing (storeOf [scenarioA]) FindContainerIDs"
    and n: "\<not> refused (runtime worldOrphans) NewClientWithOpts"
    and l: "\<not> refused (runtime worldOrphans) ContainerList"
    and k9: "''c9'' \<in> fst ` set (containers (runtime worldOrphans))"
    and k1: "''c1'' \<in> fst ` set (containers (runtime worldOrphans))"
    using worldOrphans_facts by simp_all
  from CleanupOrphanedContainers_sweeps [OF c m q n l k9]
       CleanupOrphanedContainers_sweeps [OF c m q n l k1]
  show ?thesis
    using worldOrphans_facts by simp
qed

end
